theory Spec2Isabelle
  imports Complex_Main "HOL-Library.Word"
begin

section \<open>JavaScript values\<close>

text \<open>
  The validators receive whatever \<^verbatim>\<open>JSON.parse\<close> produced and narrow it with run-time
  checks (\<^verbatim>\<open>typeof\<close>, \<^verbatim>\<open>in\<close>, \<^verbatim>\<open>Array.isArray\<close>, \<^verbatim>\<open>isNaN\<close>). The model therefore
  works on an untyped value: a tagged union of the JavaScript values that can reach the
  checks. A string is its sequence of UTF-16 code units, a number is a finite value or
  one of the three special values, an object is the list of its own properties (lookup
  takes the first entry of a key).
\<close>

type_synonym jsstring = "16 word list"

datatype jsnumber = NaN | PosInfinity | NegInfinity | Finite rat

datatype jsvalue =
    JUndefined
  | JNull
  | JBoolean bool
  | JNumber jsnumber
  | JString jsstring
  | JArray "jsvalue list"
  | JObject "(jsstring \<times> jsvalue) list"

text \<open>
  String literals of the source are ASCII; \<open>str\<close> turns such a literal into its code
  units.
\<close>

definition str :: "string \<Rightarrow> jsstring" where
  "str s = map (\<lambda>c. of_nat (of_char c)) s"

text \<open>\<^verbatim>\<open>typeof v\<close>: \<^verbatim>\<open>null\<close> and arrays answer \<^verbatim>\<open>'object'\<close>.\<close>

fun typeof :: "jsvalue \<Rightarrow> string" where
  "typeof JUndefined = ''undefined''"
| "typeof JNull = ''object''"
| "typeof (JBoolean b) = ''boolean''"
| "typeof (JNumber n) = ''number''"
| "typeof (JString s) = ''string''"
| "typeof (JArray xs) = ''object''"
| "typeof (JObject kvs) = ''object''"

text \<open>
  \<^verbatim>\<open>!v\<close> is true for the falsy values: \<^verbatim>\<open>undefined\<close>, \<^verbatim>\<open>null\<close>, \<^verbatim>\<open>false\<close>, zero,
  \<^verbatim>\<open>NaN\<close> and the empty string.
\<close>

fun truthy :: "jsvalue \<Rightarrow> bool" where
  "truthy JUndefined = False"
| "truthy JNull = False"
| "truthy (JBoolean b) = b"
| "truthy (JNumber n) = (n \<noteq> NaN \<and> n \<noteq> Finite 0)"
| "truthy (JString s) = (s \<noteq> [])"
| "truthy (JArray xs) = True"
| "truthy (JObject kvs) = True"

text \<open>
  \<^verbatim>\<open>key in v\<close> and \<^verbatim>\<open>v[key]\<close> (also written \<^verbatim>\<open>v.key\<close>), for the keys the source uses:
  the literals of the \<^verbatim>\<open>REQUIRED_*_KEYS\<close> tables. None of them is an array index,
  \<^verbatim>\<open>length\<close> or a name inherited from a prototype, so an array has none of them and
  reading one from an array or a primitive gives \<^verbatim>\<open>undefined\<close>. The source applies both
  operators only behind a \<^verbatim>\<open>typeof v === 'object' && v !== null\<close> guard, where they
  cannot throw.
\<close>

fun key_in :: "string \<Rightarrow> jsvalue \<Rightarrow> bool" where
  "key_in key (JObject kvs) = (map_of kvs (str key) \<noteq> None)"
| "key_in key v = False"

fun member :: "jsvalue \<Rightarrow> string \<Rightarrow> jsvalue" where
  "member (JObject kvs) key = (case map_of kvs (str key) of Some v \<Rightarrow> v | None \<Rightarrow> JUndefined)"
| "member v key = JUndefined"

text \<open>\<^verbatim>\<open>Array.isArray(v)\<close> and \<^verbatim>\<open>v.length\<close> of an array.\<close>

fun isArray :: "jsvalue \<Rightarrow> bool" where
  "isArray (JArray xs) = True"
| "isArray v = False"

fun arrayLength :: "jsvalue \<Rightarrow> nat" where
  "arrayLength (JArray xs) = length xs"
| "arrayLength v = 0"

subsection \<open>String.prototype.trim\<close>

text \<open>
  \<^verbatim>\<open>trim\<close> removes the code units of ECMAScript's WhiteSpace and LineTerminator
  productions from both ends: tab, LF, VT, FF, CR, space, no-break space, U+1680,
  U+2000 to U+200A, U+2028, U+2029, U+202F, U+205F, U+3000 and U+FEFF. All of them lie
  in the basic plane, so the test is per code unit.
\<close>

definition isWhiteSpace :: "16 word \<Rightarrow> bool" where
  "isWhiteSpace c \<longleftrightarrow>
     c \<in> {0x0009, 0x000A, 0x000B, 0x000C, 0x000D, 0x0020, 0x00A0, 0x1680,
          0x2028, 0x2029, 0x202F, 0x205F, 0x3000, 0xFEFF}
     \<or> (0x2000 \<le> c \<and> c \<le> 0x200A)"

definition trim :: "jsstring \<Rightarrow> jsstring" where
  "trim s = rev (dropWhile isWhiteSpace (rev (dropWhile isWhiteSpace s)))"

subsection \<open>The shape predicates of the scripts\<close>

text \<open>
  \<^verbatim>\<open>isNonEmptyString\<close>, \<^verbatim>\<open>isNumber\<close> and \<^verbatim>\<open>isStringArray\<close> are declared with the same
  body in every script that uses them.
\<close>

fun isNaN :: "jsnumber \<Rightarrow> bool" where
  "isNaN NaN = True"
| "isNaN n = False"

definition isNonEmptyString :: "jsvalue \<Rightarrow> bool" where
  "isNonEmptyString v =
     (typeof v = ''string'' \<and> (case v of JString s \<Rightarrow> length (trim s) > 0 | _ \<Rightarrow> False))"

definition isNumber :: "jsvalue \<Rightarrow> bool" where
  "isNumber v =
     (typeof v = ''number'' \<and> (case v of JNumber n \<Rightarrow> \<not> isNaN n | _ \<Rightarrow> False))"

definition isStringArray :: "jsvalue \<Rightarrow> bool" where
  "isStringArray v =
     (isArray v \<and> (case v of JArray xs \<Rightarrow> list_all (\<lambda>item. typeof item = ''string'') xs
                    | _ \<Rightarrow> False))"

section \<open>Statements over the failure list\<close>

text \<open>
  Every validator owns one mutable array, \<^verbatim>\<open>missingKeys\<close>, created empty at the start of
  the call and returned at its end. A statement of the validator is modelled by its effect
  on that array. The combinators are the statement forms of the source:
  \<^verbatim>\<open>missingKeys.push(k)\<close>, \<^verbatim>\<open>if (c) { s }\<close>, \<^verbatim>\<open>if (c) { s } else { t }\<close>,
  \<^verbatim>\<open>for (const key of keys) { s }\<close> and sequencing. A condition may read the array
  (\<^verbatim>\<open>missingKeys.includes(k)\<close>), so it is a function of it.
\<close>

type_synonym stmt = "string list \<Rightarrow> string list"

definition push :: "string \<Rightarrow> stmt" where
  "push k missingKeys = missingKeys @ [k]"

definition array_includes :: "string list \<Rightarrow> string \<Rightarrow> bool" where
  "array_includes missingKeys k = (k \<in> set missingKeys)"

text \<open>
  The control forms do not depend on what the state is: they are stated for any state, and
  are used below on the array alone and on the whole heap.
\<close>

definition ifThen :: "('s \<Rightarrow> bool) \<Rightarrow> ('s \<Rightarrow> 's) \<Rightarrow> 's \<Rightarrow> 's" where
  "ifThen c s state = (if c state then s state else state)"

definition ifThenElse :: "('s \<Rightarrow> bool) \<Rightarrow> ('s \<Rightarrow> 's) \<Rightarrow> ('s \<Rightarrow> 's) \<Rightarrow> 's \<Rightarrow> 's" where
  "ifThenElse c s t state = (if c state then s state else t state)"

definition forOf :: "string list \<Rightarrow> (string \<Rightarrow> 's \<Rightarrow> 's) \<Rightarrow> 's \<Rightarrow> 's" where
  "forOf keys body state = foldl (\<lambda>st key. body key st) state keys"

definition block :: "('s \<Rightarrow> 's) list \<Rightarrow> 's \<Rightarrow> 's" where
  "block ss state = foldl (\<lambda>st s. s st) state ss"

section \<open>The move validator\<close>

definition REQUIRED_MOVE_KEYS :: "string list" where
  "REQUIRED_MOVE_KEYS = [''id'', ''name'', ''type'', ''category'', ''pp'', ''power'', ''accuracy'']"

definition REQUIRED_NAME_KEYS_moves :: "string list" where
  "REQUIRED_NAME_KEYS_moves = [''english'', ''japanese'', ''french'', ''chinese'']"

text \<open>
  \<^verbatim>\<open>validateMove(move, allowedTypes)\<close>. The second parameter is the set built by
  \<^verbatim>\<open>main\<close> from the type list; the body never reads it.
\<close>

definition validateMove :: "jsvalue \<Rightarrow> jsvalue set \<Rightarrow> string list" where
  "validateMove move allowedTypes =
    (if typeof move \<noteq> ''object'' \<or> move = JNull then map (\<lambda>k. k) REQUIRED_MOVE_KEYS
     else block [
       forOf REQUIRED_MOVE_KEYS (\<lambda>key.
         ifThen (\<lambda>_. \<not> key_in key move) (push key)),
       ifThen (\<lambda>_. \<not> key_in ''id'' move \<or> \<not> isNonEmptyString (member move ''id''))
         (ifThen (\<lambda>mk. \<not> array_includes mk ''id'') (push ''id'')),
       ifThenElse (\<lambda>_. \<not> key_in ''name'' move \<or> \<not> truthy (member move ''name'')
                       \<or> typeof (member move ''name'') \<noteq> ''object''
                       \<or> member move ''name'' = JNull)
         (ifThen (\<lambda>mk. \<not> array_includes mk ''name'') (push ''name''))
         (forOf REQUIRED_NAME_KEYS_moves (\<lambda>key.
            ifThen (\<lambda>_. \<not> key_in key (member move ''name'')
                         \<or> \<not> isNonEmptyString (member (member move ''name'') key))
              (push (''name.'' @ key)))),
       ifThen (\<lambda>_. \<not> key_in ''type'' move \<or> \<not> isNonEmptyString (member move ''type''))
         (ifThen (\<lambda>mk. \<not> array_includes mk ''type'') (push ''type'')),
       ifThen (\<lambda>_. \<not> key_in ''category'' move \<or> \<not> isNonEmptyString (member move ''category''))
         (ifThen (\<lambda>mk. \<not> array_includes mk ''category'') (push ''category'')),
       ifThen (\<lambda>_. \<not> key_in ''pp'' move \<or> \<not> isNonEmptyString (member move ''pp''))
         (ifThen (\<lambda>mk. \<not> array_includes mk ''pp'') (push ''pp'')),
       ifThen (\<lambda>_. \<not> key_in ''power'' move \<or> \<not> isNonEmptyString (member move ''power''))
         (ifThen (\<lambda>mk. \<not> array_includes mk ''power'') (push ''power'')),
       ifThen (\<lambda>_. \<not> key_in ''accuracy'' move \<or> \<not> isNonEmptyString (member move ''accuracy''))
         (ifThen (\<lambda>mk. \<not> array_includes mk ''accuracy'') (push ''accuracy''))
     ] [])"

section \<open>The item validator\<close>

definition REQUIRED_ITEM_KEYS :: "string list" where
  "REQUIRED_ITEM_KEYS = [''id'', ''name'', ''type'', ''description'']"

definition REQUIRED_NAME_KEYS_items :: "string list" where
  "REQUIRED_NAME_KEYS_items = [''english'', ''japanese'', ''chinese'']"

definition validateItem :: "jsvalue \<Rightarrow> string list" where
  "validateItem item =
    (if typeof item \<noteq> ''object'' \<or> item = JNull then map (\<lambda>k. k) REQUIRED_ITEM_KEYS
     else block [
       forOf REQUIRED_ITEM_KEYS (\<lambda>key.
         ifThen (\<lambda>_. \<not> key_in key item) (push key)),
       ifThen (\<lambda>_. \<not> key_in ''id'' item \<or> \<not> isNumber (member item ''id''))
         (ifThen (\<lambda>mk. \<not> array_includes mk ''id'') (push ''id'')),
       ifThenElse (\<lambda>_. \<not> key_in ''name'' item \<or> \<not> truthy (member item ''name'')
                       \<or> typeof (member item ''name'') \<noteq> ''object''
                       \<or> member item ''name'' = JNull)
         (ifThen (\<lambda>mk. \<not> array_includes mk ''name'') (push ''name''))
         (forOf REQUIRED_NAME_KEYS_items (\<lambda>key.
            ifThen (\<lambda>_. \<not> key_in key (member item ''name'')
                         \<or> \<not> isNonEmptyString (member (member item ''name'') key))
              (push (''name.'' @ key)))),
       ifThen (\<lambda>_. \<not> key_in ''type'' item \<or> \<not> isNonEmptyString (member item ''type''))
         (ifThen (\<lambda>mk. \<not> array_includes mk ''type'') (push ''type'')),
       ifThen (\<lambda>_. \<not> key_in ''description'' item \<or> \<not> isNonEmptyString (member item ''description''))
         (ifThen (\<lambda>mk. \<not> array_includes mk ''description'') (push ''description''))
     ] [])"

section \<open>The type validator\<close>

definition REQUIRED_TYPE_KEYS :: "string list" where
  "REQUIRED_TYPE_KEYS =
     [''english'', ''chinese'', ''japanese'', ''effective'', ''ineffective'', ''no_effect'']"

definition validateType :: "jsvalue \<Rightarrow> string list" where
  "validateType ty =
    (if typeof ty \<noteq> ''object'' \<or> ty = JNull then map (\<lambda>k. k) REQUIRED_TYPE_KEYS
     else block [
       forOf REQUIRED_TYPE_KEYS (\<lambda>key.
         ifThen (\<lambda>_. \<not> key_in key ty) (push key)),
       ifThen (\<lambda>_. \<not> key_in ''english'' ty \<or> \<not> isNonEmptyString (member ty ''english''))
         (ifThen (\<lambda>mk. \<not> array_includes mk ''english'') (push ''english'')),
       ifThen (\<lambda>_. \<not> key_in ''chinese'' ty \<or> \<not> isNonEmptyString (member ty ''chinese''))
         (ifThen (\<lambda>mk. \<not> array_includes mk ''chinese'') (push ''chinese'')),
       ifThen (\<lambda>_. \<not> key_in ''japanese'' ty \<or> \<not> isNonEmptyString (member ty ''japanese''))
         (ifThen (\<lambda>mk. \<not> array_includes mk ''japanese'') (push ''japanese'')),
       ifThen (\<lambda>_. \<not> key_in ''effective'' ty \<or> \<not> isStringArray (member ty ''effective''))
         (ifThen (\<lambda>mk. \<not> array_includes mk ''effective'') (push ''effective'')),
       ifThen (\<lambda>_. \<not> key_in ''ineffective'' ty \<or> \<not> isStringArray (member ty ''ineffective''))
         (ifThen (\<lambda>mk. \<not> array_includes mk ''ineffective'') (push ''ineffective'')),
       ifThen (\<lambda>_. \<not> key_in ''no_effect'' ty \<or> \<not> isStringArray (member ty ''no_effect''))
         (ifThen (\<lambda>mk. \<not> array_includes mk ''no_effect'') (push ''no_effect''))
     ] [])"

section \<open>The Pokemon validator\<close>

definition REQUIRED_POKEMON_KEYS :: "string list" where
  "REQUIRED_POKEMON_KEYS =
     [''id'', ''name'', ''type'', ''base'', ''species'', ''description'', ''evolution'', ''profile'']"

definition REQUIRED_NAME_KEYS_pokedex :: "string list" where
  "REQUIRED_NAME_KEYS_pokedex = [''english'', ''japanese'', ''chinese'', ''french'']"

definition REQUIRED_BASE_KEYS :: "string list" where
  "REQUIRED_BASE_KEYS = [''HP'', ''Attack'', ''Defense'', ''Sp. Attack'', ''Sp. Defense'', ''Speed'']"

definition REQUIRED_PROFILE_KEYS :: "string list" where
  "REQUIRED_PROFILE_KEYS = [''height'', ''weight'', ''egg'', ''ability'', ''gender'']"

definition validatePokemon :: "jsvalue \<Rightarrow> string list" where
  "validatePokemon pokemon =
    (if typeof pokemon \<noteq> ''object'' \<or> pokemon = JNull then map (\<lambda>k. k) REQUIRED_POKEMON_KEYS
     else block [
       forOf REQUIRED_POKEMON_KEYS (\<lambda>key.
         ifThen (\<lambda>_. \<not> key_in key pokemon) (push key)),
       ifThen (\<lambda>_. \<not> key_in ''id'' pokemon \<or> \<not> isNumber (member pokemon ''id''))
         (ifThen (\<lambda>mk. \<not> array_includes mk ''id'') (push ''id'')),
       ifThenElse (\<lambda>_. \<not> key_in ''name'' pokemon \<or> \<not> truthy (member pokemon ''name'')
                       \<or> typeof (member pokemon ''name'') \<noteq> ''object''
                       \<or> member pokemon ''name'' = JNull)
         (ifThen (\<lambda>mk. \<not> array_includes mk ''name'') (push ''name''))
         (forOf REQUIRED_NAME_KEYS_pokedex (\<lambda>key.
            ifThen (\<lambda>_. \<not> key_in key (member pokemon ''name'')
                         \<or> \<not> isNonEmptyString (member (member pokemon ''name'') key))
              (push (''name.'' @ key)))),
       ifThen (\<lambda>_. \<not> key_in ''type'' pokemon \<or> \<not> isStringArray (member pokemon ''type'')
                   \<or> arrayLength (member pokemon ''type'') = 0)
         (ifThen (\<lambda>mk. \<not> array_includes mk ''type'') (push ''type'')),
       ifThenElse (\<lambda>_. \<not> key_in ''base'' pokemon \<or> \<not> truthy (member pokemon ''base'')
                       \<or> typeof (member pokemon ''base'') \<noteq> ''object''
                       \<or> member pokemon ''base'' = JNull)
         (ifThen (\<lambda>mk. \<not> array_includes mk ''base'') (push ''base''))
         (forOf REQUIRED_BASE_KEYS (\<lambda>key.
            ifThen (\<lambda>_. \<not> key_in key (member pokemon ''base'')
                         \<or> \<not> isNumber (member (member pokemon ''base'') key))
              (push (''base.'' @ key)))),
       ifThen (\<lambda>_. \<not> key_in ''species'' pokemon \<or> \<not> isNonEmptyString (member pokemon ''species''))
         (ifThen (\<lambda>mk. \<not> array_includes mk ''species'') (push ''species'')),
       ifThen (\<lambda>_. \<not> key_in ''description'' pokemon \<or> \<not> isNonEmptyString (member pokemon ''description''))
         (ifThen (\<lambda>mk. \<not> array_includes mk ''description'') (push ''description'')),
       ifThen (\<lambda>_. \<not> key_in ''evolution'' pokemon \<or> \<not> truthy (member pokemon ''evolution'')
                       \<or> typeof (member pokemon ''evolution'') \<noteq> ''object''
                       \<or> member pokemon ''evolution'' = JNull)
         (ifThen (\<lambda>mk. \<not> array_includes mk ''evolution'') (push ''evolution'')),
       ifThenElse (\<lambda>_. \<not> key_in ''profile'' pokemon \<or> \<not> truthy (member pokemon ''profile'')
                       \<or> typeof (member pokemon ''profile'') \<noteq> ''object''
                       \<or> member pokemon ''profile'' = JNull)
         (ifThen (\<lambda>mk. \<not> array_includes mk ''profile'') (push ''profile''))
         (block [
            forOf REQUIRED_PROFILE_KEYS (\<lambda>key.
              ifThen (\<lambda>_. \<not> key_in key (member pokemon ''profile''))
                (push (''profile.'' @ key))),
            ifThen (\<lambda>_. \<not> key_in ''height'' (member pokemon ''profile'')
                         \<or> \<not> isNonEmptyString (member (member pokemon ''profile'') ''height''))
              (ifThen (\<lambda>mk. \<not> array_includes mk ''profile.height'') (push ''profile.height'')),
            ifThen (\<lambda>_. \<not> key_in ''weight'' (member pokemon ''profile'')
                         \<or> \<not> isNonEmptyString (member (member pokemon ''profile'') ''weight''))
              (ifThen (\<lambda>mk. \<not> array_includes mk ''profile.weight'') (push ''profile.weight'')),
            ifThen (\<lambda>_. \<not> key_in ''egg'' (member pokemon ''profile'')
                         \<or> \<not> isStringArray (member (member pokemon ''profile'') ''egg''))
              (ifThen (\<lambda>mk. \<not> array_includes mk ''profile.egg'') (push ''profile.egg'')),
            ifThen (\<lambda>_. \<not> key_in ''ability'' (member pokemon ''profile'')
                         \<or> \<not> isArray (member (member pokemon ''profile'') ''ability''))
              (ifThen (\<lambda>mk. \<not> array_includes mk ''profile.ability'') (push ''profile.ability'')),
            ifThen (\<lambda>_. \<not> key_in ''gender'' (member pokemon ''profile'')
                         \<or> \<not> isNonEmptyString (member (member pokemon ''profile'') ''gender''))
              (ifThen (\<lambda>mk. \<not> array_includes mk ''profile.gender'') (push ''profile.gender''))
          ])
     ] [])"

section \<open>The validators on the heap\<close>

text \<open>
  The definitions above give each validator as a function of the record. This section
  gives the same code with the arrays where JavaScript keeps them, in the heap, so that
  what a call shares with other calls is visible. The heap holds the arrays of strings of
  a running script, by reference. A module-level \<^verbatim>\<open>const REQUIRED_... = [...]\<close> is a
  reference to an array allocated when the script is loaded; \<^verbatim>\<open>const missingKeys = []\<close>
  and \<^verbatim>\<open>REQUIRED_....map(k => k)\<close> allocate a new array in every call; \<^verbatim>\<open>push\<close> writes
  to the array behind a reference and \<^verbatim>\<open>includes\<close> and \<^verbatim>\<open>for ... of\<close> read it. A
  validator returns the reference of its failure list, which its caller may then read or
  write. The record is only read and is passed as a value.
\<close>

type_synonym heap = "string list list"

type_synonym ref = nat

text \<open>
  A reference is the position of its array in the heap. References come from \<open>alloc\<close>
  only, so they are in range; \<open>deref\<close> gives the empty array outside the range.
\<close>

definition alloc :: "string list \<Rightarrow> heap \<Rightarrow> ref \<times> heap" where
  "alloc xs h = (length h, h @ [xs])"

definition deref :: "heap \<Rightarrow> ref \<Rightarrow> string list" where
  "deref h r = (if r < length h then h ! r else [])"

definition push_at :: "ref \<Rightarrow> string \<Rightarrow> heap \<Rightarrow> heap" where
  "push_at r k h = h[r := deref h r @ [k]]"

definition includes_at :: "heap \<Rightarrow> ref \<Rightarrow> string \<Rightarrow> bool" where
  "includes_at h r k = (k \<in> set (deref h r))"

text \<open>
  \<^verbatim>\<open>for (const key of table)\<close>, with the table behind a reference. The loops of the
  validators write to \<^verbatim>\<open>missingKeys\<close> only, never to the table they run over, so the
  keys are those the table holds when the loop starts.
\<close>

definition forOfAt :: "ref \<Rightarrow> (string \<Rightarrow> heap \<Rightarrow> heap) \<Rightarrow> heap \<Rightarrow> heap" where
  "forOfAt r body h = forOf (deref h r) body h"

text \<open>The heap of each script after loading: its key tables, and their references.\<close>

definition module_moves :: heap where
  "module_moves = [REQUIRED_MOVE_KEYS, REQUIRED_NAME_KEYS_moves]"

definition REQUIRED_MOVE_KEYS_ref :: ref where
  "REQUIRED_MOVE_KEYS_ref = 0"

definition REQUIRED_NAME_KEYS_moves_ref :: ref where
  "REQUIRED_NAME_KEYS_moves_ref = 1"

definition module_items :: heap where
  "module_items = [REQUIRED_ITEM_KEYS, REQUIRED_NAME_KEYS_items]"

definition REQUIRED_ITEM_KEYS_ref :: ref where
  "REQUIRED_ITEM_KEYS_ref = 0"

definition REQUIRED_NAME_KEYS_items_ref :: ref where
  "REQUIRED_NAME_KEYS_items_ref = 1"

definition module_types :: heap where
  "module_types = [REQUIRED_TYPE_KEYS]"

definition REQUIRED_TYPE_KEYS_ref :: ref where
  "REQUIRED_TYPE_KEYS_ref = 0"

definition module_pokedex :: heap where
  "module_pokedex =
     [REQUIRED_POKEMON_KEYS, REQUIRED_NAME_KEYS_pokedex, REQUIRED_BASE_KEYS,
      REQUIRED_PROFILE_KEYS]"

definition REQUIRED_POKEMON_KEYS_ref :: ref where
  "REQUIRED_POKEMON_KEYS_ref = 0"

definition REQUIRED_NAME_KEYS_pokedex_ref :: ref where
  "REQUIRED_NAME_KEYS_pokedex_ref = 1"

definition REQUIRED_BASE_KEYS_ref :: ref where
  "REQUIRED_BASE_KEYS_ref = 2"

definition REQUIRED_PROFILE_KEYS_ref :: ref where
  "REQUIRED_PROFILE_KEYS_ref = 3"

text \<open>
  The four validators, statement for statement as above, on a heap \<open>h0\<close> of the running
  script. Each returns the reference of the failure list and the heap after the call.
\<close>

definition validateMove_heap :: "jsvalue \<Rightarrow> jsvalue set \<Rightarrow> heap \<Rightarrow> ref \<times> heap" where
  "validateMove_heap move allowedTypes h0 =
    (case alloc [] h0 of (missingKeys, h) \<Rightarrow>
     if typeof move \<noteq> ''object'' \<or> move = JNull
     then alloc (map (\<lambda>k. k) (deref h REQUIRED_MOVE_KEYS_ref)) h
     else (missingKeys, block [
       forOfAt REQUIRED_MOVE_KEYS_ref (\<lambda>key.
         ifThen (\<lambda>_. \<not> key_in key move) (push_at missingKeys key)),
       ifThen (\<lambda>_. \<not> key_in ''id'' move \<or> \<not> isNonEmptyString (member move ''id''))
         (ifThen (\<lambda>h. \<not> includes_at h missingKeys ''id'') (push_at missingKeys ''id'')),
       ifThenElse (\<lambda>_. \<not> key_in ''name'' move \<or> \<not> truthy (member move ''name'')
                       \<or> typeof (member move ''name'') \<noteq> ''object''
                       \<or> member move ''name'' = JNull)
         (ifThen (\<lambda>h. \<not> includes_at h missingKeys ''name'') (push_at missingKeys ''name''))
         (forOfAt REQUIRED_NAME_KEYS_moves_ref (\<lambda>key.
            ifThen (\<lambda>_. \<not> key_in key (member move ''name'')
                         \<or> \<not> isNonEmptyString (member (member move ''name'') key))
              (push_at missingKeys (''name.'' @ key)))),
       ifThen (\<lambda>_. \<not> key_in ''type'' move \<or> \<not> isNonEmptyString (member move ''type''))
         (ifThen (\<lambda>h. \<not> includes_at h missingKeys ''type'') (push_at missingKeys ''type'')),
       ifThen (\<lambda>_. \<not> key_in ''category'' move \<or> \<not> isNonEmptyString (member move ''category''))
         (ifThen (\<lambda>h. \<not> includes_at h missingKeys ''category'') (push_at missingKeys ''category'')),
       ifThen (\<lambda>_. \<not> key_in ''pp'' move \<or> \<not> isNonEmptyString (member move ''pp''))
         (ifThen (\<lambda>h. \<not> includes_at h missingKeys ''pp'') (push_at missingKeys ''pp'')),
       ifThen (\<lambda>_. \<not> key_in ''power'' move \<or> \<not> isNonEmptyString (member move ''power''))
         (ifThen (\<lambda>h. \<not> includes_at h missingKeys ''power'') (push_at missingKeys ''power'')),
       ifThen (\<lambda>_. \<not> key_in ''accuracy'' move \<or> \<not> isNonEmptyString (member move ''accuracy''))
         (ifThen (\<lambda>h. \<not> includes_at h missingKeys ''accuracy'') (push_at missingKeys ''accuracy''))
     ] h))"

definition validateItem_heap :: "jsvalue \<Rightarrow> heap \<Rightarrow> ref \<times> heap" where
  "validateItem_heap item h0 =
    (case alloc [] h0 of (missingKeys, h) \<Rightarrow>
     if typeof item \<noteq> ''object'' \<or> item = JNull
     then alloc (map (\<lambda>k. k) (deref h REQUIRED_ITEM_KEYS_ref)) h
     else (missingKeys, block [
       forOfAt REQUIRED_ITEM_KEYS_ref (\<lambda>key.
         ifThen (\<lambda>_. \<not> key_in key item) (push_at missingKeys key)),
       ifThen (\<lambda>_. \<not> key_in ''id'' item \<or> \<not> isNumber (member item ''id''))
         (ifThen (\<lambda>h. \<not> includes_at h missingKeys ''id'') (push_at missingKeys ''id'')),
       ifThenElse (\<lambda>_. \<not> key_in ''name'' item \<or> \<not> truthy (member item ''name'')
                       \<or> typeof (member item ''name'') \<noteq> ''object''
                       \<or> member item ''name'' = JNull)
         (ifThen (\<lambda>h. \<not> includes_at h missingKeys ''name'') (push_at missingKeys ''name''))
         (forOfAt REQUIRED_NAME_KEYS_items_ref (\<lambda>key.
            ifThen (\<lambda>_. \<not> key_in key (member item ''name'')
                         \<or> \<not> isNonEmptyString (member (member item ''name'') key))
              (push_at missingKeys (''name.'' @ key)))),
       ifThen (\<lambda>_. \<not> key_in ''type'' item \<or> \<not> isNonEmptyString (member item ''type''))
         (ifThen (\<lambda>h. \<not> includes_at h missingKeys ''type'') (push_at missingKeys ''type'')),
       ifThen (\<lambda>_. \<not> key_in ''description'' item \<or> \<not> isNonEmptyString (member item ''description''))
         (ifThen (\<lambda>h. \<not> includes_at h missingKeys ''description'') (push_at missingKeys ''description''))
     ] h))"

definition validateType_heap :: "jsvalue \<Rightarrow> heap \<Rightarrow> ref \<times> heap" where
  "validateType_heap ty h0 =
    (case alloc [] h0 of (missingKeys, h) \<Rightarrow>
     if typeof ty \<noteq> ''object'' \<or> ty = JNull
     then alloc (map (\<lambda>k. k) (deref h REQUIRED_TYPE_KEYS_ref)) h
     else (missingKeys, block [
       forOfAt REQUIRED_TYPE_KEYS_ref (\<lambda>key.
         ifThen (\<lambda>_. \<not> key_in key ty) (push_at missingKeys key)),
       ifThen (\<lambda>_. \<not> key_in ''english'' ty \<or> \<not> isNonEmptyString (member ty ''english''))
         (ifThen (\<lambda>h. \<not> includes_at h missingKeys ''english'') (push_at missingKeys ''english'')),
       ifThen (\<lambda>_. \<not> key_in ''chinese'' ty \<or> \<not> isNonEmptyString (member ty ''chinese''))
         (ifThen (\<lambda>h. \<not> includes_at h missingKeys ''chinese'') (push_at missingKeys ''chinese'')),
       ifThen (\<lambda>_. \<not> key_in ''japanese'' ty \<or> \<not> isNonEmptyString (member ty ''japanese''))
         (ifThen (\<lambda>h. \<not> includes_at h missingKeys ''japanese'') (push_at missingKeys ''japanese'')),
       ifThen (\<lambda>_. \<not> key_in ''effective'' ty \<or> \<not> isStringArray (member ty ''effective''))
         (ifThen (\<lambda>h. \<not> includes_at h missingKeys ''effective'') (push_at missingKeys ''effective'')),
       ifThen (\<lambda>_. \<not> key_in ''ineffective'' ty \<or> \<not> isStringArray (member ty ''ineffective''))
         (ifThen (\<lambda>h. \<not> includes_at h missingKeys ''ineffective'') (push_at missingKeys ''ineffective'')),
       ifThen (\<lambda>_. \<not> key_in ''no_effect'' ty \<or> \<not> isStringArray (member ty ''no_effect''))
         (ifThen (\<lambda>h. \<not> includes_at h missingKeys ''no_effect'') (push_at missingKeys ''no_effect''))
     ] h))"

definition validatePokemon_heap :: "jsvalue \<Rightarrow> heap \<Rightarrow> ref \<times> heap" where
  "validatePokemon_heap pokemon h0 =
    (case alloc [] h0 of (missingKeys, h) \<Rightarrow>
     if typeof pokemon \<noteq> ''object'' \<or> pokemon = JNull
     then alloc (map (\<lambda>k. k) (deref h REQUIRED_POKEMON_KEYS_ref)) h
     else (missingKeys, block [
       forOfAt REQUIRED_POKEMON_KEYS_ref (\<lambda>key.
         ifThen (\<lambda>_. \<not> key_in key pokemon) (push_at missingKeys key)),
       ifThen (\<lambda>_. \<not> key_in ''id'' pokemon \<or> \<not> isNumber (member pokemon ''id''))
         (ifThen (\<lambda>h. \<not> includes_at h missingKeys ''id'') (push_at missingKeys ''id'')),
       ifThenElse (\<lambda>_. \<not> key_in ''name'' pokemon \<or> \<not> truthy (member pokemon ''name'')
                       \<or> typeof (member pokemon ''name'') \<noteq> ''object''
                       \<or> member pokemon ''name'' = JNull)
         (ifThen (\<lambda>h. \<not> includes_at h missingKeys ''name'') (push_at missingKeys ''name''))
         (forOfAt REQUIRED_NAME_KEYS_pokedex_ref (\<lambda>key.
            ifThen (\<lambda>_. \<not> key_in key (member pokemon ''name'')
                         \<or> \<not> isNonEmptyString (member (member pokemon ''name'') key))
              (push_at missingKeys (''name.'' @ key)))),
       ifThen (\<lambda>_. \<not> key_in ''type'' pokemon \<or> \<not> isStringArray (member pokemon ''type'')
                   \<or> arrayLength (member pokemon ''type'') = 0)
         (ifThen (\<lambda>h. \<not> includes_at h missingKeys ''type'') (push_at missingKeys ''type'')),
       ifThenElse (\<lambda>_. \<not> key_in ''base'' pokemon \<or> \<not> truthy (member pokemon ''base'')
                       \<or> typeof (member pokemon ''base'') \<noteq> ''object''
                       \<or> member pokemon ''base'' = JNull)
         (ifThen (\<lambda>h. \<not> includes_at h missingKeys ''base'') (push_at missingKeys ''base''))
         (forOfAt REQUIRED_BASE_KEYS_ref (\<lambda>key.
            ifThen (\<lambda>_. \<not> key_in key (member pokemon ''base'')
                         \<or> \<not> isNumber (member (member pokemon ''base'') key))
              (push_at missingKeys (''base.'' @ key)))),
       ifThen (\<lambda>_. \<not> key_in ''species'' pokemon \<or> \<not> isNonEmptyString (member pokemon ''species''))
         (ifThen (\<lambda>h. \<not> includes_at h missingKeys ''species'') (push_at missingKeys ''species'')),
       ifThen (\<lambda>_. \<not> key_in ''description'' pokemon \<or> \<not> isNonEmptyString (member pokemon ''description''))
         (ifThen (\<lambda>h. \<not> includes_at h missingKeys ''description'') (push_at missingKeys ''description'')),
       ifThen (\<lambda>_. \<not> key_in ''evolution'' pokemon \<or> \<not> truthy (member pokemon ''evolution'')
                       \<or> typeof (member pokemon ''evolution'') \<noteq> ''object''
                       \<or> member pokemon ''evolution'' = JNull)
         (ifThen (\<lambda>h. \<not> includes_at h missingKeys ''evolution'') (push_at missingKeys ''evolution'')),
       ifThenElse (\<lambda>_. \<not> key_in ''profile'' pokemon \<or> \<not> truthy (member pokemon ''profile'')
                       \<or> typeof (member pokemon ''profile'') \<noteq> ''object''
                       \<or> member pokemon ''profile'' = JNull)
         (ifThen (\<lambda>h. \<not> includes_at h missingKeys ''profile'') (push_at missingKeys ''profile''))
         (block [
            forOfAt REQUIRED_PROFILE_KEYS_ref (\<lambda>key.
              ifThen (\<lambda>_. \<not> key_in key (member pokemon ''profile''))
                (push_at missingKeys (''profile.'' @ key))),
            ifThen (\<lambda>_. \<not> key_in ''height'' (member pokemon ''profile'')
                         \<or> \<not> isNonEmptyString (member (member pokemon ''profile'') ''height''))
              (ifThen (\<lambda>h. \<not> includes_at h missingKeys ''profile.height'') (push_at missingKeys ''profile.height'')),
            ifThen (\<lambda>_. \<not> key_in ''weight'' (member pokemon ''profile'')
                         \<or> \<not> isNonEmptyString (member (member pokemon ''profile'') ''weight''))
              (ifThen (\<lambda>h. \<not> includes_at h missingKeys ''profile.weight'') (push_at missingKeys ''profile.weight'')),
            ifThen (\<lambda>_. \<not> key_in ''egg'' (member pokemon ''profile'')
                         \<or> \<not> isStringArray (member (member pokemon ''profile'') ''egg''))
              (ifThen (\<lambda>h. \<not> includes_at h missingKeys ''profile.egg'') (push_at missingKeys ''profile.egg'')),
            ifThen (\<lambda>_. \<not> key_in ''ability'' (member pokemon ''profile'')
                         \<or> \<not> isArray (member (member pokemon ''profile'') ''ability''))
              (ifThen (\<lambda>h. \<not> includes_at h missingKeys ''profile.ability'') (push_at missingKeys ''profile.ability'')),
            ifThen (\<lambda>_. \<not> key_in ''gender'' (member pokemon ''profile'')
                         \<or> \<not> isNonEmptyString (member (member pokemon ''profile'') ''gender''))
              (ifThen (\<lambda>h. \<not> includes_at h missingKeys ''profile.gender'') (push_at missingKeys ''profile.gender''))
          ])
     ] h))"

text \<open>
  Two calls of a validator in a row, as its caller sees them: the caller reads the first
  failure list, overwrites that array with contents of its own, calls again on the heap it
  now has, and reads the second failure list.
\<close>

definition callTwice ::
  "(heap \<Rightarrow> ref \<times> heap) \<Rightarrow> string list \<Rightarrow> heap \<Rightarrow> string list \<times> string list" where
  "callTwice validate scribble h =
     (case validate h of (first, h1) \<Rightarrow>
        (case validate (h1[first := scribble]) of (second, h2) \<Rightarrow>
           (deref h1 first, deref h2 second)))"

text \<open>
  A device for the proofs: a heap statement simulates an array statement on the heap \<open>h\<close>
  when, with the failure list as the last array after \<open>h\<close>, it leaves \<open>h\<close> alone and does
  to the failure list what the array statement does.
\<close>

definition simulates :: "heap \<Rightarrow> (heap \<Rightarrow> heap) \<Rightarrow> stmt \<Rightarrow> bool" where
  "simulates h heapStmt arrayStmt = (\<forall>ks. heapStmt (h @ [ks]) = h @ [arrayStmt ks])"

section \<open>The validator programs\<close>

text \<open>
  Each script ends with a call of its \<^verbatim>\<open>main\<close>: load the dataset, validate every record
  in order, build the report, write it, print a summary and set the exit code when a
  record failed. The dataset is the array the loader returned; its records are untrusted
  values. The file system and the console are modelled by the trace of effects the run
  performs, in order. The report is kept as the value handed to \<^verbatim>\<open>JSON.stringify\<close>; a
  console line is kept as the fragments of its template literal. The time stamp
  \<^verbatim>\<open>new Date().toISOString()\<close> is an input of the run. Reading the input file and
  writing the report are taken to succeed: the scripts do not catch a failure of either,
  which ends the run at that point.
\<close>

datatype fragment = Lit string | Interp jsvalue

datatype effect =
    WriteFile string jsvalue
  | ConsoleLog "fragment list"
  | SetExitCode nat

text \<open>
  \<^verbatim>\<open>process.exitCode\<close> is unset when the script starts; a run that never sets it ends
  with status 0.
\<close>

definition exitStatus :: "effect list \<Rightarrow> nat" where
  "exitStatus trace = foldl (\<lambda>code e. case e of SetExitCode n \<Rightarrow> n | _ \<Rightarrow> code) 0 trace"

text \<open>
  \<^verbatim>\<open>interface Failure { id; name?; missingKeys }\<close> of the Pokemon, move and item scripts
  (an absent \<^verbatim>\<open>name\<close> is \<^verbatim>\<open>undefined\<close>), and the one of the type script, which has no
  \<^verbatim>\<open>id\<close>.
\<close>

record Failure =
  failure_id :: jsvalue
  failure_name :: jsvalue
  missingKeys :: "string list"

record TypeFailure =
  type_name :: jsvalue
  type_missingKeys :: "string list"

definition failureObject :: "Failure \<Rightarrow> jsvalue" where
  "failureObject failure = JObject [
     (str ''id'', failure_id failure),
     (str ''name'', failure_name failure),
     (str ''missingKeys'', JArray (map (\<lambda>k. JString (str k)) (missingKeys failure)))]"

definition typeFailureObject :: "TypeFailure \<Rightarrow> jsvalue" where
  "typeFailureObject failure = JObject [
     (str ''name'', type_name failure),
     (str ''missingKeys'', JArray (map (\<lambda>k. JString (str k)) (type_missingKeys failure)))]"

text \<open>\<^verbatim>\<open>keys.join(', ')\<close>\<close>

fun join :: "string \<Rightarrow> string list \<Rightarrow> string" where
  "join sep [] = []"
| "join sep [k] = k"
| "join sep (k # ks) = k @ sep @ join sep ks"

text \<open>The two console lines printed for a failing record.\<close>

definition failureLines :: "Failure \<Rightarrow> effect list" where
  "failureLines failure =
     [ConsoleLog ([Lit ''ID: '', Interp (failure_id failure)]
                  @ (if truthy (failure_name failure)
                     then [Lit '' ('', Interp (failure_name failure), Lit '')''] else [Lit []])),
      ConsoleLog [Lit ''Missing keys: '', Lit (join '', '' (missingKeys failure)), Lit [CHR 0x0A]]]"

definition typeFailureLines :: "TypeFailure \<Rightarrow> effect list" where
  "typeFailureLines failure =
     [ConsoleLog (if truthy (type_name failure)
                  then [Lit ''Type: '', Interp (type_name failure)] else [Lit ''Unknown type'']),
      ConsoleLog [Lit ''Missing keys: '', Lit (join '', '' (type_missingKeys failure)),
                  Lit [CHR 0x0A]]]"

subsection \<open>verify-pokedex\<close>

definition outputPath_pokedex :: string where
  "outputPath_pokedex = ''scripts/pokedex-validation.json''"

definition failures_pokedex :: "jsvalue list \<Rightarrow> Failure list" where
  "failures_pokedex pokedex =
     foldl (\<lambda>failures pokemon.
        let missingKeys = validatePokemon pokemon in
        if length missingKeys > 0 then
          failures @ [\<lparr>
            failure_id = (if typeof pokemon = ''object'' \<and> pokemon \<noteq> JNull \<and> key_in ''id'' pokemon
                 \<and> typeof (member pokemon ''id'') = ''number''
               then member pokemon ''id'' else JString (str ''unknown'')),
            failure_name = (if typeof pokemon = ''object'' \<and> pokemon \<noteq> JNull \<and> key_in ''name'' pokemon
                 \<and> typeof (member pokemon ''name'') = ''object'' \<and> member pokemon ''name'' \<noteq> JNull
                 \<and> key_in ''english'' (member pokemon ''name'')
                 \<and> typeof (member (member pokemon ''name'') ''english'') = ''string''
               then member (member pokemon ''name'') ''english'' else JUndefined),
            missingKeys = missingKeys\<rparr>]
        else failures) [] pokedex"

definition main_pokedex :: "jsstring \<Rightarrow> jsvalue list \<Rightarrow> effect list" where
  "main_pokedex timestamp pokedex =
     (let failures = failures_pokedex pokedex;
          results = JObject [
            (str ''timestamp'', JString timestamp),
            (str ''totalPokemon'', JNumber (Finite (of_nat (length pokedex)))),
            (str ''pokemonWithMissingKeys'', JNumber (Finite (of_nat (length failures)))),
            (str ''failures'', JArray (map failureObject failures))]
      in WriteFile outputPath_pokedex results #
         (if length failures = 0 then
            [ConsoleLog [Lit ''OK: '', Interp (JNumber (Finite (of_nat (length pokedex)))),
                         Lit ('' Pok'' @ [CHR 0xE9] @ ''mon validated'')],
             ConsoleLog [Lit ''Results written to: '', Lit outputPath_pokedex]]
          else
            [ConsoleLog [Lit ''Found '', Interp (JNumber (Finite (of_nat (length failures)))),
                         Lit ('' Pok'' @ [CHR 0xE9] @ ''mon with missing keys'')],
             ConsoleLog [Lit ''Results written to: '', Lit outputPath_pokedex, Lit [CHR 0x0A]]]
            @ concat (map failureLines failures)
            @ [SetExitCode 1]))"

subsection \<open>verify-items\<close>

definition outputPath_items :: string where
  "outputPath_items = ''scripts/items-validation.json''"

definition failures_items :: "jsvalue list \<Rightarrow> Failure list" where
  "failures_items items =
     foldl (\<lambda>failures item.
        let missingKeys = validateItem item in
        if length missingKeys > 0 then
          failures @ [\<lparr>
            failure_id = (if typeof item = ''object'' \<and> item \<noteq> JNull \<and> key_in ''id'' item
                 \<and> typeof (member item ''id'') = ''number''
               then member item ''id'' else JString (str ''unknown'')),
            failure_name = (if typeof item = ''object'' \<and> item \<noteq> JNull \<and> key_in ''name'' item
                 \<and> typeof (member item ''name'') = ''object'' \<and> member item ''name'' \<noteq> JNull
                 \<and> key_in ''english'' (member item ''name'')
                 \<and> typeof (member (member item ''name'') ''english'') = ''string''
               then member (member item ''name'') ''english'' else JUndefined),
            missingKeys = missingKeys\<rparr>]
        else failures) [] items"

definition main_items :: "jsstring \<Rightarrow> jsvalue list \<Rightarrow> effect list" where
  "main_items timestamp items =
     (let failures = failures_items items;
          results = JObject [
            (str ''timestamp'', JString timestamp),
            (str ''totalItems'', JNumber (Finite (of_nat (length items)))),
            (str ''itemsWithMissingKeys'', JNumber (Finite (of_nat (length failures)))),
            (str ''failures'', JArray (map failureObject failures))]
      in WriteFile outputPath_items results #
         (if length failures = 0 then
            [ConsoleLog [Lit ''OK: '', Interp (JNumber (Finite (of_nat (length items)))),
                         Lit '' items validated''],
             ConsoleLog [Lit ''Results written to: '', Lit outputPath_items]]
          else
            [ConsoleLog [Lit ''Found '', Interp (JNumber (Finite (of_nat (length failures)))),
                         Lit '' item(s) with missing keys''],
             ConsoleLog [Lit ''Results written to: '', Lit outputPath_items, Lit [CHR 0x0A]]]
            @ concat (map failureLines failures)
            @ [SetExitCode 1]))"

subsection \<open>verify-moves\<close>

text \<open>
  The move script also loads the type list and builds
  \<^verbatim>\<open>new Set(types.map((t) => t.english))\<close>. The property read is not guarded: it throws a
  \<^verbatim>\<open>TypeError\<close> on an entry that is \<^verbatim>\<open>null\<close> or \<^verbatim>\<open>undefined\<close>, which ends the run
  before anything is validated or written; on any other entry it yields the property or
  \<^verbatim>\<open>undefined\<close>.
\<close>

datatype error = TypeError

definition outputPath_moves :: string where
  "outputPath_moves = ''scripts/moves-validation.json''"

definition allowedTypesOf :: "jsvalue list \<Rightarrow> error + jsvalue set" where
  "allowedTypesOf types =
     (if list_ex (\<lambda>t. t = JNull \<or> t = JUndefined) types then Inl TypeError
      else Inr (set (map (\<lambda>t. member t ''english'') types)))"

definition failures_moves :: "jsvalue list \<Rightarrow> jsvalue set \<Rightarrow> Failure list" where
  "failures_moves moves allowedTypes =
     foldl (\<lambda>failures move.
        let missingKeys = validateMove move allowedTypes in
        if length missingKeys > 0 then
          failures @ [\<lparr>
            failure_id = (if typeof move = ''object'' \<and> move \<noteq> JNull \<and> key_in ''id'' move
                 \<and> typeof (member move ''id'') = ''string''
               then member move ''id'' else JString (str ''unknown'')),
            failure_name = (if typeof move = ''object'' \<and> move \<noteq> JNull \<and> key_in ''name'' move
                 \<and> typeof (member move ''name'') = ''object'' \<and> member move ''name'' \<noteq> JNull
                 \<and> key_in ''english'' (member move ''name'')
                 \<and> typeof (member (member move ''name'') ''english'') = ''string''
               then member (member move ''name'') ''english'' else JUndefined),
            missingKeys = missingKeys\<rparr>]
        else failures) [] moves"

definition main_moves :: "jsstring \<Rightarrow> jsvalue list \<Rightarrow> jsvalue list \<Rightarrow> error + effect list" where
  "main_moves timestamp moves types =
     (case allowedTypesOf types of
        Inl e \<Rightarrow> Inl e
      | Inr allowedTypes \<Rightarrow> Inr
     (let failures = failures_moves moves allowedTypes;
          results = JObject [
            (str ''timestamp'', JString timestamp),
            (str ''totalMoves'', JNumber (Finite (of_nat (length moves)))),
            (str ''movesWithMissingKeys'', JNumber (Finite (of_nat (length failures)))),
            (str ''failures'', JArray (map failureObject failures))]
      in WriteFile outputPath_moves results #
         (if length failures = 0 then
            [ConsoleLog [Lit ''OK: '', Interp (JNumber (Finite (of_nat (length moves)))),
                         Lit '' moves validated''],
             ConsoleLog [Lit ''Results written to: '', Lit outputPath_moves]]
          else
            [ConsoleLog [Lit ''Found '', Interp (JNumber (Finite (of_nat (length failures)))),
                         Lit '' move(s) with missing keys''],
             ConsoleLog [Lit ''Results written to: '', Lit outputPath_moves, Lit [CHR 0x0A]]]
            @ concat (map failureLines failures)
            @ [SetExitCode 1])))"

subsection \<open>verify-types\<close>

definition outputPath_types :: string where
  "outputPath_types = ''scripts/types-validation.json''"

definition failures_types :: "jsvalue list \<Rightarrow> TypeFailure list" where
  "failures_types types =
     foldl (\<lambda>failures ty.
        let missingKeys = validateType ty in
        if length missingKeys > 0 then
          failures @ [\<lparr>
            type_name = (if typeof ty = ''object'' \<and> ty \<noteq> JNull \<and> key_in ''english'' ty
                           \<and> typeof (member ty ''english'') = ''string''
                         then member ty ''english'' else JUndefined),
            type_missingKeys = missingKeys\<rparr>]
        else failures) [] types"

definition main_types :: "jsstring \<Rightarrow> jsvalue list \<Rightarrow> effect list" where
  "main_types timestamp types =
     (let failures = failures_types types;
          results = JObject [
            (str ''timestamp'', JString timestamp),
            (str ''totalTypes'', JNumber (Finite (of_nat (length types)))),
            (str ''typesWithMissingKeys'', JNumber (Finite (of_nat (length failures)))),
            (str ''failures'', JArray (map typeFailureObject failures))]
      in WriteFile outputPath_types results #
         (if length failures = 0 then
            [ConsoleLog [Lit ''OK: '', Interp (JNumber (Finite (of_nat (length types)))),
                         Lit '' types validated''],
             ConsoleLog [Lit ''Results written to: '', Lit outputPath_types]]
          else
            [ConsoleLog [Lit ''Found '', Interp (JNumber (Finite (of_nat (length failures)))),
                         Lit '' type(s) with missing keys''],
             ConsoleLog [Lit ''Results written to: '', Lit outputPath_types, Lit [CHR 0x0A]]]
            @ concat (map typeFailureLines failures)
            @ [SetExitCode 1]))"

section \<open>The record shapes of the data model\<close>

text \<open>
  The shapes below follow the words of the specification's data model, not the code: a
  string that is non-empty after trimming, a finite number, a list of strings, a list, an
  object, and an object that has a field of a given shape. They state which records
  conform; the theorems relate them to what the validators compute.
\<close>

definition hasText :: "jsvalue \<Rightarrow> bool" where
  "hasText v = (case v of JString s \<Rightarrow> list_ex (\<lambda>c. \<not> isWhiteSpace c) s | _ \<Rightarrow> False)"

definition finiteNumber :: "jsvalue \<Rightarrow> bool" where
  "finiteNumber v = (case v of JNumber (Finite q) \<Rightarrow> True | _ \<Rightarrow> False)"

definition anyString :: "jsvalue \<Rightarrow> bool" where
  "anyString v = (case v of JString s \<Rightarrow> True | _ \<Rightarrow> False)"

definition stringList :: "jsvalue \<Rightarrow> bool" where
  "stringList v = (case v of JArray xs \<Rightarrow> list_all anyString xs | _ \<Rightarrow> False)"

definition anyList :: "jsvalue \<Rightarrow> bool" where
  "anyList v = (case v of JArray xs \<Rightarrow> True | _ \<Rightarrow> False)"

definition anyObject :: "jsvalue \<Rightarrow> bool" where
  "anyObject v = (case v of JObject kvs \<Rightarrow> True | _ \<Rightarrow> False)"

definition field :: "jsvalue \<Rightarrow> string \<Rightarrow> (jsvalue \<Rightarrow> bool) \<Rightarrow> bool" where
  "field obj key shape =
     (case obj of
        JObject kvs \<Rightarrow> (case map_of kvs (str key) of Some v \<Rightarrow> shape v | None \<Rightarrow> False)
      | _ \<Rightarrow> False)"

definition lacks :: "jsvalue \<Rightarrow> string \<Rightarrow> bool" where
  "lacks obj key = (case obj of JObject kvs \<Rightarrow> map_of kvs (str key) = None | _ \<Rightarrow> False)"

text \<open>
  A Pokemon record: numeric id; a name in four languages; a non-empty list of type
  strings; base stats and profile of the given shapes; species and description; an
  evolution object, whose fields are optional.
\<close>

definition pokemonShape :: "(jsvalue \<Rightarrow> bool) \<Rightarrow> (jsvalue \<Rightarrow> bool) \<Rightarrow> jsvalue \<Rightarrow> bool" where
  "pokemonShape baseShape profileShape p =
     (field p ''id'' finiteNumber
      \<and> field p ''name'' (\<lambda>n. field n ''english'' hasText \<and> field n ''japanese'' hasText
                              \<and> field n ''chinese'' hasText \<and> field n ''french'' hasText)
      \<and> field p ''type'' (\<lambda>t. stringList t \<and> t \<noteq> JArray [])
      \<and> field p ''base'' baseShape
      \<and> field p ''species'' hasText
      \<and> field p ''description'' hasText
      \<and> field p ''evolution'' anyObject
      \<and> field p ''profile'' profileShape)"

text \<open>
  The conforming record has six numeric base stats and a profile with height, weight and
  gender strings, a list of egg-group strings and a list of abilities. The elements of
  the ability list are left open, which includes the lists of pairs of the data model.
\<close>

definition conformsPokemon :: "jsvalue \<Rightarrow> bool" where
  "conformsPokemon =
     pokemonShape
       (\<lambda>b. field b ''HP'' finiteNumber \<and> field b ''Attack'' finiteNumber
            \<and> field b ''Defense'' finiteNumber \<and> field b ''Sp. Attack'' finiteNumber
            \<and> field b ''Sp. Defense'' finiteNumber \<and> field b ''Speed'' finiteNumber)
       (\<lambda>pr. field pr ''height'' hasText \<and> field pr ''weight'' hasText
            \<and> field pr ''egg'' stringList \<and> field pr ''ability'' anyList
            \<and> field pr ''gender'' hasText)"

text \<open>
  The record of the first end-to-end scenario: conforming in every respect, except that
  \<^verbatim>\<open>base.Speed\<close> is a string and \<^verbatim>\<open>profile.gender\<close> is absent.
\<close>

definition scenario1Pokemon :: "jsvalue \<Rightarrow> bool" where
  "scenario1Pokemon =
     pokemonShape
       (\<lambda>b. field b ''HP'' finiteNumber \<and> field b ''Attack'' finiteNumber
            \<and> field b ''Defense'' finiteNumber \<and> field b ''Sp. Attack'' finiteNumber
            \<and> field b ''Sp. Defense'' finiteNumber \<and> field b ''Speed'' anyString)
       (\<lambda>pr. field pr ''height'' hasText \<and> field pr ''weight'' hasText
            \<and> field pr ''egg'' stringList \<and> field pr ''ability'' anyList
            \<and> lacks pr ''gender'')"

text \<open>
  A move record: string id, a name in four languages, and type, category, PP, power and
  accuracy as strings. The four category names of \<^verbatim>\<open>Move\<close> are strings with text, so the
  shape covers them.
\<close>

definition conformsMove :: "jsvalue \<Rightarrow> bool" where
  "conformsMove m =
     (field m ''id'' hasText
      \<and> field m ''name'' (\<lambda>n. field n ''english'' hasText \<and> field n ''japanese'' hasText
                              \<and> field n ''french'' hasText \<and> field n ''chinese'' hasText)
      \<and> field m ''type'' hasText
      \<and> field m ''category'' hasText
      \<and> field m ''pp'' hasText
      \<and> field m ''power'' hasText
      \<and> field m ''accuracy'' hasText)"

text \<open>The category names declared by \<^verbatim>\<open>interface Move\<close>.\<close>

definition categoryNames :: "jsstring list" where
  "categoryNames = map str [''Physical'', ''Special'', ''Status'', ''???'']"

text \<open>An item record: numeric id, a name in three languages, type and description.\<close>

definition conformsItem :: "jsvalue \<Rightarrow> bool" where
  "conformsItem i =
     (field i ''id'' finiteNumber
      \<and> field i ''name'' (\<lambda>n. field n ''english'' hasText \<and> field n ''japanese'' hasText
                              \<and> field n ''chinese'' hasText)
      \<and> field i ''type'' hasText
      \<and> field i ''description'' hasText)"

text \<open>A type record: a name in three languages and three lists of type names.\<close>

definition conformsType :: "jsvalue \<Rightarrow> bool" where
  "conformsType t =
     (field t ''english'' hasText \<and> field t ''chinese'' hasText \<and> field t ''japanese'' hasText
      \<and> field t ''effective'' stringList \<and> field t ''ineffective'' stringList
      \<and> field t ''no_effect'' stringList)"

section \<open>Example records\<close>

text \<open>
  Records in the form of the published dataset, used to instantiate the theorems. The
  Pokemon record leaves its \<^verbatim>\<open>base.Speed\<close>, its \<^verbatim>\<open>profile.ability\<close> and the fields after
  \<^verbatim>\<open>profile.ability\<close> open; the move record leaves its category and its power open.
\<close>

definition examplePokemon :: "jsvalue \<Rightarrow> jsvalue \<Rightarrow> (jsstring \<times> jsvalue) list \<Rightarrow> jsvalue" where
  "examplePokemon speed ability genderField = JObject [
     (str ''id'', JNumber (Finite 1)),
     (str ''name'', JObject [
        (str ''english'', JString (str ''Bulbasaur'')),
        (str ''japanese'', JString [0x30D5, 0x30B7, 0x30AE, 0x30C0, 0x30CD]),
        (str ''chinese'', JString [0x5999, 0x86D9, 0x79CD, 0x5B50]),
        (str ''french'', JString (str ''Bulbizarre''))]),
     (str ''type'', JArray [JString (str ''Grass''), JString (str ''Poison'')]),
     (str ''base'', JObject [
        (str ''HP'', JNumber (Finite 45)),
        (str ''Attack'', JNumber (Finite 49)),
        (str ''Defense'', JNumber (Finite 49)),
        (str ''Sp. Attack'', JNumber (Finite 65)),
        (str ''Sp. Defense'', JNumber (Finite 65)),
        (str ''Speed'', speed)]),
     (str ''species'', JString (str ''Seed Pokemon'')),
     (str ''description'', JString (str ''It carries a seed on its back.'')),
     (str ''evolution'', JObject [
        (str ''next'', JArray [JArray [JString (str ''2''), JString (str ''Level 16'')]])]),
     (str ''profile'', JObject ([
        (str ''height'', JString (str ''0.7 m'')),
        (str ''weight'', JString (str ''6.9 kg'')),
        (str ''egg'', JArray [JString (str ''Monster''), JString (str ''Grass'')]),
        (str ''ability'', ability)] @ genderField))]"

definition bulbasaur :: jsvalue where
  "bulbasaur = examplePokemon (JNumber (Finite 45))
     (JArray [JArray [JString (str ''Overgrow''), JString (str ''false'')],
              JArray [JString (str ''Chlorophyll''), JString (str ''true'')]])
     [(str ''gender'', JString (str ''87.5:12.5''))]"

text \<open>Scenario 1: \<^verbatim>\<open>base.Speed\<close> is the string \<^verbatim>\<open>"45"\<close> and \<^verbatim>\<open>profile.gender\<close> is absent.\<close>

definition scenario1Example :: jsvalue where
  "scenario1Example = examplePokemon (JString (str ''45''))
     (JArray [JArray [JString (str ''Overgrow''), JString (str ''false'')]]) []"

text \<open>An ability list that holds a number, \<^verbatim>\<open>null\<close> and a one-element list.\<close>

definition oddAbilityExample :: jsvalue where
  "oddAbilityExample = examplePokemon (JNumber (Finite 45))
     (JArray [JNumber (Finite 7), JNull, JArray [JString (str ''Overgrow'')]])
     [(str ''gender'', JString (str ''87.5:12.5''))]"

definition exampleMove :: "jsvalue \<Rightarrow> jsvalue \<Rightarrow> jsvalue" where
  "exampleMove category pwr = JObject [
     (str ''id'', JString (str ''1'')),
     (str ''name'', JObject [
        (str ''english'', JString (str ''Pound'')),
        (str ''japanese'', JString [0x306F, 0x305F, 0x304F]),
        (str ''french'', JString (str ''Ecras-Face'')),
        (str ''chinese'', JString [0x62CD, 0x51FB])]),
     (str ''type'', JString (str ''Normal'')),
     (str ''category'', category),
     (str ''pp'', JString (str ''35'')),
     (str ''power'', pwr),
     (str ''accuracy'', JString (str ''100''))]"

definition pound :: jsvalue where
  "pound = exampleMove (JString (str ''Physical'')) (JString (str ''40''))"

text \<open>The em dash of scenario 2 is the single code unit U+2014; a blank is U+0020.\<close>

definition emDash :: jsstring where
  "emDash = [0x2014]"

definition blank :: jsstring where
  "blank = [0x0020]"

definition potion :: jsvalue where
  "potion = JObject [
     (str ''id'', JNumber (Finite 17)),
     (str ''name'', JObject [
        (str ''english'', JString (str ''Potion'')),
        (str ''japanese'', JString [0x30AD, 0x30BA, 0x3050, 0x3059, 0x308A]),
        (str ''chinese'', JString [0x4F24, 0x836F])]),
     (str ''type'', JString (str ''Medicine'')),
     (str ''description'', JString (str ''Restores 20 HP.''))]"

definition fireType :: jsvalue where
  "fireType = JObject [
     (str ''english'', JString (str ''Fire'')),
     (str ''chinese'', JString [0x706B]),
     (str ''japanese'', JString [0x307B, 0x306E, 0x304A]),
     (str ''effective'', JArray [JString (str ''Grass''), JString (str ''Ice'')]),
     (str ''ineffective'', JArray [JString (str ''Water''), JString (str ''Rock'')]),
     (str ''no_effect'', JArray [])]"

section \<open>Reasoning about statements\<close>

lemma block_Nil: "block [] mk = mk"
  by (simp add: block_def)

lemma block_Cons: "block (s # ss) mk = block ss (s mk)"
  by (simp add: block_def)

text \<open>A loop that pushes a label for every bad key appends the labels of the bad keys.\<close>

lemma forOf_push_eq:
  "forOf keys (\<lambda>key. ifThen (\<lambda>_. bad key) (push (label key))) mk
     = mk @ map label (filter bad keys)"
  by (induction keys arbitrary: mk) (simp_all add: forOf_def ifThen_def push_def)

text \<open>\<^verbatim>\<open>if (!missingKeys.includes(k)) missingKeys.push(k)\<close>, alone and under a condition.\<close>

lemma pushIfAbsent_eq:
  "ifThen (\<lambda>mk. \<not> array_includes mk k) (push k) mk = (if k \<in> set mk then mk else mk @ [k])"
  by (simp add: ifThen_def push_def array_includes_def)

lemma report_eq:
  "ifThen (\<lambda>_. c) (ifThen (\<lambda>mk. \<not> array_includes mk k) (push k)) mk
     = (if c \<and> k \<notin> set mk then mk @ [k] else mk)"
  by (simp add: ifThen_def push_def array_includes_def)

lemma ifThen_const: "ifThen (\<lambda>_. c) s mk = (if c then s mk else mk)"
  by (simp add: ifThen_def)

lemma ifThenElse_const: "ifThenElse (\<lambda>_. c) s t mk = (if c then s mk else t mk)"
  by (simp add: ifThenElse_def)

lemmas stmt_eval = block_Nil block_Cons forOf_push_eq pushIfAbsent_eq ifThen_const ifThenElse_const

text \<open>What a statement does to membership and to distinctness.\<close>

lemma distinct_report:
  "distinct (ifThen (\<lambda>_. c) (ifThen (\<lambda>mk. \<not> array_includes mk k) (push k)) mk) = distinct mk"
  by (simp add: report_eq)

lemma distinct_pushIfAbsent:
  "distinct (ifThen (\<lambda>mk. \<not> array_includes mk k) (push k) mk) = distinct mk"
  by (simp add: pushIfAbsent_eq)

lemma in_report:
  "x \<in> set (ifThen (\<lambda>_. c) (ifThen (\<lambda>mk. \<not> array_includes mk k) (push k)) mk)
     \<longleftrightarrow> (c \<and> x = k) \<or> x \<in> set mk"
  by (auto simp add: report_eq)

lemma in_pushIfAbsent:
  "x \<in> set (ifThen (\<lambda>mk. \<not> array_includes mk k) (push k) mk) \<longleftrightarrow> x = k \<or> x \<in> set mk"
  by (auto simp add: pushIfAbsent_eq)

lemma in_forOf_push:
  "x \<in> set (forOf keys (\<lambda>key. ifThen (\<lambda>_. bad key) (push (label key))) mk)
     \<longleftrightarrow> x \<in> set mk \<or> (\<exists>key\<in>set keys. bad key \<and> x = label key)"
  by (auto simp add: forOf_push_eq)

lemma distinct_forOf_push:
  "distinct (forOf keys (\<lambda>key. ifThen (\<lambda>_. bad key) (push (label key))) mk)
     \<longleftrightarrow> distinct mk \<and> distinct (map label (filter bad keys))
         \<and> (\<forall>key\<in>set keys. bad key \<longrightarrow> label key \<notin> set mk)"
  by (auto simp add: forOf_push_eq)

lemma distinct_ifThenElse:
  "distinct (ifThenElse (\<lambda>_. c) s t mk) = (if c then distinct (s mk) else distinct (t mk))"
  by (simp add: ifThenElse_def)

lemma in_ifThenElse:
  "x \<in> set (ifThenElse (\<lambda>_. c) s t mk) \<longleftrightarrow> (if c then x \<in> set (s mk) else x \<in> set (t mk))"
  by (simp add: ifThenElse_def)

lemma distinct_map_prefix: "distinct (map (\<lambda>key. c # f key) xs) = distinct (map f xs)"
  by (simp add: distinct_map inj_on_def)

lemmas stmt_sets = block_Nil block_Cons distinct_report distinct_pushIfAbsent in_report
  in_pushIfAbsent in_forOf_push distinct_forOf_push distinct_ifThenElse in_ifThenElse
  distinct_map_prefix

subsection \<open>The key tables\<close>

lemma REQUIRED_MOVE_KEYS_facts:
  "distinct REQUIRED_MOVE_KEYS"
  "set REQUIRED_MOVE_KEYS = {''id'', ''name'', ''type'', ''category'', ''pp'', ''power'', ''accuracy''}"
  by (simp_all add: REQUIRED_MOVE_KEYS_def)

lemma REQUIRED_NAME_KEYS_moves_facts:
  "distinct REQUIRED_NAME_KEYS_moves"
  "set REQUIRED_NAME_KEYS_moves = {''english'', ''japanese'', ''french'', ''chinese''}"
  by (simp_all add: REQUIRED_NAME_KEYS_moves_def)

lemma REQUIRED_ITEM_KEYS_facts:
  "distinct REQUIRED_ITEM_KEYS"
  "set REQUIRED_ITEM_KEYS = {''id'', ''name'', ''type'', ''description''}"
  by (simp_all add: REQUIRED_ITEM_KEYS_def)

lemma REQUIRED_NAME_KEYS_items_facts:
  "distinct REQUIRED_NAME_KEYS_items"
  "set REQUIRED_NAME_KEYS_items = {''english'', ''japanese'', ''chinese''}"
  by (simp_all add: REQUIRED_NAME_KEYS_items_def)

lemma REQUIRED_TYPE_KEYS_facts:
  "distinct REQUIRED_TYPE_KEYS"
  "set REQUIRED_TYPE_KEYS =
     {''english'', ''chinese'', ''japanese'', ''effective'', ''ineffective'', ''no_effect''}"
  by (simp_all add: REQUIRED_TYPE_KEYS_def)

lemma REQUIRED_POKEMON_KEYS_facts:
  "distinct REQUIRED_POKEMON_KEYS"
  "set REQUIRED_POKEMON_KEYS =
     {''id'', ''name'', ''type'', ''base'', ''species'', ''description'', ''evolution'', ''profile''}"
  by (simp_all add: REQUIRED_POKEMON_KEYS_def)

lemma REQUIRED_NAME_KEYS_pokedex_facts:
  "distinct REQUIRED_NAME_KEYS_pokedex"
  "set REQUIRED_NAME_KEYS_pokedex = {''english'', ''japanese'', ''chinese'', ''french''}"
  by (simp_all add: REQUIRED_NAME_KEYS_pokedex_def)

lemma REQUIRED_BASE_KEYS_facts:
  "distinct REQUIRED_BASE_KEYS"
  "set REQUIRED_BASE_KEYS =
     {''HP'', ''Attack'', ''Defense'', ''Sp. Attack'', ''Sp. Defense'', ''Speed''}"
  by (simp_all add: REQUIRED_BASE_KEYS_def)

lemma REQUIRED_PROFILE_KEYS_facts:
  "distinct REQUIRED_PROFILE_KEYS"
  "set REQUIRED_PROFILE_KEYS = {''height'', ''weight'', ''egg'', ''ability'', ''gender''}"
  by (simp_all add: REQUIRED_PROFILE_KEYS_def)

section \<open>No field is reported twice\<close>

lemma distinct_validateMove: "distinct (validateMove m a)"
  unfolding validateMove_def
  by (simp add: stmt_sets REQUIRED_MOVE_KEYS_facts REQUIRED_NAME_KEYS_moves_facts)

lemma distinct_validateItem: "distinct (validateItem i)"
  unfolding validateItem_def
  by (simp add: stmt_sets REQUIRED_ITEM_KEYS_facts REQUIRED_NAME_KEYS_items_facts)

lemma distinct_validateType: "distinct (validateType t)"
  unfolding validateType_def
  by (simp add: stmt_sets REQUIRED_TYPE_KEYS_facts)

lemma distinct_validatePokemon: "distinct (validatePokemon p)"
  unfolding validatePokemon_def
  by (simp add: stmt_sets REQUIRED_POKEMON_KEYS_facts REQUIRED_NAME_KEYS_pokedex_facts
        REQUIRED_BASE_KEYS_facts REQUIRED_PROFILE_KEYS_facts)

text \<open>
  C4. For every input and every validator, no field name, top-level or dotted, occurs
  twice in the returned failure list. This covers the field that is both absent and
  malformed: the presence loop reports it, and the later shape check finds it in the list
  and leaves the list alone.
\<close>

theorem failure_list_has_no_duplicates:
  "distinct (validatePokemon v) \<and> distinct (validateMove v allowedTypes)
   \<and> distinct (validateItem v) \<and> distinct (validateType v)"
  by (simp add: distinct_validatePokemon distinct_validateMove distinct_validateItem
        distinct_validateType)

section \<open>The allow-list is not used\<close>

text \<open>
  C5. The set of allowed type names never constrains a move: for every move record and
  any two sets given as \<^verbatim>\<open>allowedTypes\<close>, \<^verbatim>\<open>validateMove\<close> returns the same failure
  list.
\<close>

theorem validateMove_ignores_allowedTypes:
  "validateMove move allowedTypes1 = validateMove move allowedTypes2"
  by (simp add: validateMove_def)

section \<open>Strings and shapes\<close>

lemma of_char_less: "(of_char c :: nat) < 2 ^ 16"
proof -
  have "(of_char c :: nat) mod 256 = of_char c"
    by (rule of_char_mod_256)
  moreover have "(of_char c :: nat) mod 256 < 256"
    by (rule mod_less_divisor) simp
  ultimately have "(of_char c :: nat) < 256"
    by metis
  also have "(256 :: nat) < 2 ^ 16"
    by simp
  finally show ?thesis .
qed

text \<open>Different literals have different code units.\<close>

lemma str_inject: "str a = str b \<longleftrightarrow> a = b"
proof -
  have "inj (\<lambda>c. (of_nat (of_char c) :: 16 word))"
  proof (rule injI)
    fix x y :: char
    assume "(of_nat (of_char x) :: 16 word) = of_nat (of_char y)"
    then have "unat (of_nat (of_char x) :: 16 word) = unat (of_nat (of_char y) :: 16 word)"
      by simp
    then have "(of_char x :: nat) = of_char y"
      using of_char_less[of x] of_char_less[of y]
      by (simp add: unat_of_nat take_bit_nat_eq_self)
    then show "x = y"
      by (metis char_of_char)
  qed
  then show ?thesis
    by (simp add: str_def inj_map_eq_map)
qed

text \<open>Trimming leaves nothing exactly when every code unit is white space.\<close>

lemma trim_eq_Nil: "trim s = [] \<longleftrightarrow> (\<forall>c\<in>set s. isWhiteSpace c)"
proof
  assume "trim s = []"
  then have "\<forall>c\<in>set (dropWhile isWhiteSpace s). isWhiteSpace c"
    by (simp add: trim_def dropWhile_eq_Nil_conv)
  then have "dropWhile isWhiteSpace s = []"
    using hd_dropWhile[of isWhiteSpace s] hd_in_set[of "dropWhile isWhiteSpace s"] by blast
  then show "\<forall>c\<in>set s. isWhiteSpace c"
    by (simp add: dropWhile_eq_Nil_conv)
next
  assume "\<forall>c\<in>set s. isWhiteSpace c"
  then show "trim s = []"
    by (auto simp add: trim_def dest: set_dropWhileD)
qed

lemma isNonEmptyString_JString:
  "isNonEmptyString (JString s) \<longleftrightarrow> (\<exists>c\<in>set s. \<not> isWhiteSpace c)"
  by (auto simp add: isNonEmptyString_def trim_eq_Nil)

lemma hasText_iff: "hasText v = isNonEmptyString v"
  by (cases v) (auto simp add: hasText_def isNonEmptyString_def trim_eq_Nil list_ex_iff)

lemma finiteNumber_isNumber: "finiteNumber v \<Longrightarrow> isNumber v"
  by (auto simp add: finiteNumber_def isNumber_def split: jsvalue.splits jsnumber.splits)

lemma stringList_iff: "stringList v = isStringArray v"
proof -
  have "anyString x \<longleftrightarrow> typeof x = ''string''" for x
    by (cases x) (simp_all add: anyString_def)
  then show ?thesis
    by (cases v) (simp_all add: stringList_def isStringArray_def list_all_iff)
qed

lemma anyList_iff: "anyList v = isArray v"
  by (cases v) (simp_all add: anyList_def)

lemma anyString_not_isNumber: "anyString v \<Longrightarrow> \<not> isNumber v"
  by (cases v) (simp_all add: anyString_def isNumber_def)

lemma anyObject_D: "anyObject v \<Longrightarrow> truthy v \<and> typeof v = ''object'' \<and> v \<noteq> JNull"
  by (cases v) (simp_all add: anyObject_def)

lemma field_iff: "field obj key shape \<longleftrightarrow> key_in key obj \<and> shape (member obj key)"
  by (cases obj) (auto simp add: field_def split: option.splits)

lemma key_in_D: "key_in key v \<Longrightarrow> truthy v \<and> typeof v = ''object'' \<and> v \<noteq> JNull"
  by (cases v) simp_all

lemma lacks_D: "lacks v key \<Longrightarrow> \<not> key_in key v \<and> truthy v \<and> typeof v = ''object'' \<and> v \<noteq> JNull"
  by (cases v) (simp_all add: lacks_def)

lemmas REQUIRED_defs = REQUIRED_MOVE_KEYS_def REQUIRED_NAME_KEYS_moves_def REQUIRED_ITEM_KEYS_def
  REQUIRED_NAME_KEYS_items_def REQUIRED_TYPE_KEYS_def REQUIRED_POKEMON_KEYS_def
  REQUIRED_NAME_KEYS_pokedex_def REQUIRED_BASE_KEYS_def REQUIRED_PROFILE_KEYS_def

section \<open>Conforming records pass\<close>

lemma conformsType_valid:
  assumes "conformsType t"
  shows "validateType t = []"
proof -
  from assms have f: "key_in ''english'' t" "key_in ''chinese'' t" "key_in ''japanese'' t"
    "key_in ''effective'' t" "key_in ''ineffective'' t" "key_in ''no_effect'' t"
    "isNonEmptyString (member t ''english'')" "isNonEmptyString (member t ''chinese'')"
    "isNonEmptyString (member t ''japanese'')" "isStringArray (member t ''effective'')"
    "isStringArray (member t ''ineffective'')" "isStringArray (member t ''no_effect'')"
    by (simp_all add: conformsType_def field_iff hasText_iff stringList_iff)
  from f(1) have o: "typeof t = ''object''" "t \<noteq> JNull"
    using key_in_D by blast+
  show ?thesis
    by (simp add: validateType_def stmt_eval REQUIRED_defs f o)
qed

lemma conformsItem_valid:
  assumes "conformsItem i"
  shows "validateItem i = []"
proof -
  let ?n = "member i ''name''"
  from assms have f: "key_in ''id'' i" "key_in ''name'' i" "key_in ''type'' i"
    "key_in ''description'' i" "finiteNumber (member i ''id'')"
    "isNonEmptyString (member i ''type'')" "isNonEmptyString (member i ''description'')"
    and n: "key_in ''english'' ?n" "key_in ''japanese'' ?n" "key_in ''chinese'' ?n"
    "isNonEmptyString (member ?n ''english'')" "isNonEmptyString (member ?n ''japanese'')"
    "isNonEmptyString (member ?n ''chinese'')"
    by (simp_all add: conformsItem_def field_iff hasText_iff)
  have o: "typeof i = ''object''" "i \<noteq> JNull" "truthy ?n" "typeof ?n = ''object''" "?n \<noteq> JNull"
    using f(1) n(1) key_in_D by blast+
  show ?thesis
    by (simp add: validateItem_def stmt_eval REQUIRED_defs f n o finiteNumber_isNumber)
qed

lemma conformsMove_valid:
  assumes "conformsMove m"
  shows "validateMove m a = []"
proof -
  let ?n = "member m ''name''"
  from assms have f: "key_in ''id'' m" "key_in ''name'' m" "key_in ''type'' m"
    "key_in ''category'' m" "key_in ''pp'' m" "key_in ''power'' m" "key_in ''accuracy'' m"
    "isNonEmptyString (member m ''id'')" "isNonEmptyString (member m ''type'')"
    "isNonEmptyString (member m ''category'')" "isNonEmptyString (member m ''pp'')"
    "isNonEmptyString (member m ''power'')" "isNonEmptyString (member m ''accuracy'')"
    and n: "key_in ''english'' ?n" "key_in ''japanese'' ?n" "key_in ''french'' ?n"
    "key_in ''chinese'' ?n"
    "isNonEmptyString (member ?n ''english'')" "isNonEmptyString (member ?n ''japanese'')"
    "isNonEmptyString (member ?n ''french'')" "isNonEmptyString (member ?n ''chinese'')"
    by (simp_all add: conformsMove_def field_iff hasText_iff)
  have o: "typeof m = ''object''" "m \<noteq> JNull" "truthy ?n" "typeof ?n = ''object''" "?n \<noteq> JNull"
    using f(1) n(1) key_in_D by blast+
  show ?thesis
    by (simp add: validateMove_def stmt_eval REQUIRED_defs f n o)
qed

text \<open>
  The facts a validator run needs about a record of \<open>pokemonShape\<close>, whatever the shapes
  of its base stats and profile.
\<close>

lemma pokemonShape_top:
  assumes "pokemonShape baseShape profileShape p"
  shows "typeof p = ''object''" "p \<noteq> JNull"
    "key_in ''id'' p" "key_in ''name'' p" "key_in ''type'' p" "key_in ''base'' p"
    "key_in ''species'' p" "key_in ''description'' p" "key_in ''evolution'' p"
    "key_in ''profile'' p"
    "isNumber (member p ''id'')" "isStringArray (member p ''type'')"
    "arrayLength (member p ''type'') \<noteq> 0"
    "isNonEmptyString (member p ''species'')" "isNonEmptyString (member p ''description'')"
    "truthy (member p ''evolution'')" "typeof (member p ''evolution'') = ''object''"
    "member p ''evolution'' \<noteq> JNull"
    "baseShape (member p ''base'')" "profileShape (member p ''profile'')"
proof -
  from assms have k: "key_in ''id'' p" "key_in ''name'' p" "key_in ''type'' p" "key_in ''base'' p"
    "key_in ''species'' p" "key_in ''description'' p" "key_in ''evolution'' p"
    "key_in ''profile'' p"
    and v: "finiteNumber (member p ''id'')" "isStringArray (member p ''type'')"
    "member p ''type'' \<noteq> JArray []" "isNonEmptyString (member p ''species'')"
    "isNonEmptyString (member p ''description'')" "anyObject (member p ''evolution'')"
    "baseShape (member p ''base'')" "profileShape (member p ''profile'')"
    by (simp_all add: pokemonShape_def field_iff hasText_iff stringList_iff)
  show "typeof p = ''object''" "p \<noteq> JNull"
    using k(1) key_in_D by blast+
  show "key_in ''id'' p" "key_in ''name'' p" "key_in ''type'' p" "key_in ''base'' p"
    "key_in ''species'' p" "key_in ''description'' p" "key_in ''evolution'' p"
    "key_in ''profile'' p"
    by (rule k)+
  show "isNumber (member p ''id'')"
    using v(1) by (rule finiteNumber_isNumber)
  show "isStringArray (member p ''type'')" "isNonEmptyString (member p ''species'')"
    "isNonEmptyString (member p ''description'')"
    "baseShape (member p ''base'')" "profileShape (member p ''profile'')"
    by (rule v)+
  show "arrayLength (member p ''type'') \<noteq> 0"
    using v(2,3) by (cases "member p ''type''") (simp_all add: isStringArray_def)
  show "truthy (member p ''evolution'')" "typeof (member p ''evolution'') = ''object''"
    "member p ''evolution'' \<noteq> JNull"
    using v(6) anyObject_D by blast+
qed

lemma pokemonShape_name:
  assumes "pokemonShape baseShape profileShape p"
  shows "truthy (member p ''name'')" "typeof (member p ''name'') = ''object''"
    "member p ''name'' \<noteq> JNull"
    "key_in ''english'' (member p ''name'')" "key_in ''japanese'' (member p ''name'')"
    "key_in ''chinese'' (member p ''name'')" "key_in ''french'' (member p ''name'')"
    "isNonEmptyString (member (member p ''name'') ''english'')"
    "isNonEmptyString (member (member p ''name'') ''japanese'')"
    "isNonEmptyString (member (member p ''name'') ''chinese'')"
    "isNonEmptyString (member (member p ''name'') ''french'')"
proof -
  let ?n = "member p ''name''"
  from assms have n: "key_in ''english'' ?n" "key_in ''japanese'' ?n" "key_in ''chinese'' ?n"
    "key_in ''french'' ?n"
    "isNonEmptyString (member ?n ''english'')" "isNonEmptyString (member ?n ''japanese'')"
    "isNonEmptyString (member ?n ''chinese'')" "isNonEmptyString (member ?n ''french'')"
    by (simp_all add: pokemonShape_def field_iff hasText_iff)
  show "truthy ?n" "typeof ?n = ''object''" "?n \<noteq> JNull"
    using n(1) key_in_D by blast+
  show "key_in ''english'' ?n" "key_in ''japanese'' ?n" "key_in ''chinese'' ?n"
    "key_in ''french'' ?n"
    "isNonEmptyString (member ?n ''english'')" "isNonEmptyString (member ?n ''japanese'')"
    "isNonEmptyString (member ?n ''chinese'')" "isNonEmptyString (member ?n ''french'')"
    by (rule n)+
qed

lemma conformsPokemon_valid:
  assumes "conformsPokemon p"
  shows "validatePokemon p = []"
proof -
  let ?b = "member p ''base''" and ?pr = "member p ''profile''"
  from assms obtain baseShape profileShape
    where shape: "pokemonShape baseShape profileShape p"
    and bs: "baseShape = (\<lambda>b. field b ''HP'' finiteNumber \<and> field b ''Attack'' finiteNumber
            \<and> field b ''Defense'' finiteNumber \<and> field b ''Sp. Attack'' finiteNumber
            \<and> field b ''Sp. Defense'' finiteNumber \<and> field b ''Speed'' finiteNumber)"
    and ps: "profileShape = (\<lambda>pr. field pr ''height'' hasText \<and> field pr ''weight'' hasText
            \<and> field pr ''egg'' stringList \<and> field pr ''ability'' anyList
            \<and> field pr ''gender'' hasText)"
    by (simp add: conformsPokemon_def)
  note top = pokemonShape_top[OF shape] and n = pokemonShape_name[OF shape]
  from top(19) have b: "key_in ''HP'' ?b" "key_in ''Attack'' ?b" "key_in ''Defense'' ?b"
    "key_in ''Sp. Attack'' ?b" "key_in ''Sp. Defense'' ?b" "key_in ''Speed'' ?b"
    "finiteNumber (member ?b ''HP'')" "finiteNumber (member ?b ''Attack'')"
    "finiteNumber (member ?b ''Defense'')" "finiteNumber (member ?b ''Sp. Attack'')"
    "finiteNumber (member ?b ''Sp. Defense'')" "finiteNumber (member ?b ''Speed'')"
    by (simp_all add: bs field_iff)
  from top(20) have pr: "key_in ''height'' ?pr" "key_in ''weight'' ?pr" "key_in ''egg'' ?pr"
    "key_in ''ability'' ?pr" "key_in ''gender'' ?pr"
    "isNonEmptyString (member ?pr ''height'')" "isNonEmptyString (member ?pr ''weight'')"
    "isStringArray (member ?pr ''egg'')" "isArray (member ?pr ''ability'')"
    "isNonEmptyString (member ?pr ''gender'')"
    by (simp_all add: ps field_iff hasText_iff stringList_iff anyList_iff)
  have o: "truthy ?b" "typeof ?b = ''object''" "?b \<noteq> JNull"
    "truthy ?pr" "typeof ?pr = ''object''" "?pr \<noteq> JNull"
    using b(1) pr(1) key_in_D by blast+
  show ?thesis
    by (simp add: validatePokemon_def stmt_eval REQUIRED_defs top(1-18) n b pr o
          finiteNumber_isNumber)
qed

text \<open>The record of scenario 1 fails with the base stat first and the profile field second.\<close>

lemma scenario1_result:
  assumes "scenario1Pokemon p"
  shows "validatePokemon p = [''base.Speed'', ''profile.gender'']"
proof -
  let ?b = "member p ''base''" and ?pr = "member p ''profile''"
  from assms obtain baseShape profileShape
    where shape: "pokemonShape baseShape profileShape p"
    and bs: "baseShape = (\<lambda>b. field b ''HP'' finiteNumber \<and> field b ''Attack'' finiteNumber
            \<and> field b ''Defense'' finiteNumber \<and> field b ''Sp. Attack'' finiteNumber
            \<and> field b ''Sp. Defense'' finiteNumber \<and> field b ''Speed'' anyString)"
    and ps: "profileShape = (\<lambda>pr. field pr ''height'' hasText \<and> field pr ''weight'' hasText
            \<and> field pr ''egg'' stringList \<and> field pr ''ability'' anyList
            \<and> lacks pr ''gender'')"
    by (simp add: scenario1Pokemon_def)
  note top = pokemonShape_top[OF shape] and n = pokemonShape_name[OF shape]
  from top(19) have b: "key_in ''HP'' ?b" "key_in ''Attack'' ?b" "key_in ''Defense'' ?b"
    "key_in ''Sp. Attack'' ?b" "key_in ''Sp. Defense'' ?b" "key_in ''Speed'' ?b"
    "finiteNumber (member ?b ''HP'')" "finiteNumber (member ?b ''Attack'')"
    "finiteNumber (member ?b ''Defense'')" "finiteNumber (member ?b ''Sp. Attack'')"
    "finiteNumber (member ?b ''Sp. Defense'')" "anyString (member ?b ''Speed'')"
    by (simp_all add: bs field_iff)
  from top(20) have pr: "key_in ''height'' ?pr" "key_in ''weight'' ?pr" "key_in ''egg'' ?pr"
    "key_in ''ability'' ?pr" "lacks ?pr ''gender''"
    "isNonEmptyString (member ?pr ''height'')" "isNonEmptyString (member ?pr ''weight'')"
    "isStringArray (member ?pr ''egg'')" "isArray (member ?pr ''ability'')"
    by (simp_all add: ps field_iff hasText_iff stringList_iff anyList_iff)
  have o: "truthy ?b" "typeof ?b = ''object''" "?b \<noteq> JNull"
    "truthy ?pr" "typeof ?pr = ''object''" "?pr \<noteq> JNull" "\<not> key_in ''gender'' ?pr"
    "\<not> isNumber (member ?b ''Speed'')"
    using b(1) pr(1) key_in_D lacks_D[OF pr(5)] anyString_not_isNumber[OF b(12)] by blast+
  show ?thesis
    by (simp add: validatePokemon_def stmt_eval REQUIRED_defs top(1-18) n b(1-11) pr(1-4,6-9) o
          finiteNumber_isNumber)
qed

section \<open>The example records have their shapes\<close>

lemmas example_eval = field_def lacks_def str_inject hasText_def finiteNumber_def stringList_def
  anyString_def anyList_def anyObject_def isWhiteSpace_def

lemma conformsPokemon_bulbasaur: "conformsPokemon bulbasaur"
  by (simp add: conformsPokemon_def pokemonShape_def bulbasaur_def examplePokemon_def example_eval
        str_def)

lemma conformsMove_pound: "conformsMove pound"
  by (simp add: conformsMove_def pound_def exampleMove_def example_eval str_def)

lemma conformsItem_potion: "conformsItem potion"
  by (simp add: conformsItem_def potion_def example_eval str_def)

lemma conformsType_fireType: "conformsType fireType"
  by (simp add: conformsType_def fireType_def example_eval str_def)

lemma scenario1Pokemon_example: "scenario1Pokemon scenario1Example"
  by (simp add: scenario1Pokemon_def pokemonShape_def scenario1Example_def examplePokemon_def
        example_eval str_def)

text \<open>
  C1. A record in which every required field and sub-field is present with its correct
  shape gets an empty failure list from its validator. The correct shapes are those of
  the data model: strings that are non-empty after trimming, finite numbers, lists of
  strings (non-empty for a Pokemon's types), a list of abilities, and objects for name,
  base stats, evolution and profile.
\<close>

theorem conforming_records_pass:
  "(conformsPokemon v \<longrightarrow> validatePokemon v = [])
   \<and> (conformsMove v \<longrightarrow> validateMove v allowedTypes = [])
   \<and> (conformsItem v \<longrightarrow> validateItem v = [])
   \<and> (conformsType v \<longrightarrow> validateType v = [])"
  by (simp add: conformsPokemon_valid conformsMove_valid conformsItem_valid conformsType_valid)

text \<open>The four example records conform, so each validator returns the empty list on its own.\<close>

theorem conforming_records_pass_witness:
  "conformsPokemon bulbasaur \<and> validatePokemon bulbasaur = []
   \<and> conformsMove pound \<and> validateMove pound {} = []
   \<and> conformsItem potion \<and> validateItem potion = []
   \<and> conformsType fireType \<and> validateType fireType = []"
  using conforming_records_pass[of bulbasaur "{}"] conforming_records_pass[of pound "{}"]
    conforming_records_pass[of potion "{}"] conforming_records_pass[of fireType "{}"]
    conformsPokemon_bulbasaur conformsMove_pound conformsItem_potion conformsType_fireType
  by simp

section \<open>Inputs that are not objects\<close>

lemma not_object_cases:
  assumes "\<not> anyObject v"
  shows "typeof v \<noteq> ''object'' \<or> v = JNull \<or> (\<exists>xs. v = JArray xs)"
  using assms by (cases v) (simp_all add: anyObject_def)

lemma validatePokemon_array: "validatePokemon (JArray xs) = REQUIRED_POKEMON_KEYS"
  by (simp add: validatePokemon_def stmt_eval REQUIRED_defs)

lemma validateMove_array: "validateMove (JArray xs) a = REQUIRED_MOVE_KEYS"
  by (simp add: validateMove_def stmt_eval REQUIRED_defs)

lemma validateItem_array: "validateItem (JArray xs) = REQUIRED_ITEM_KEYS"
  by (simp add: validateItem_def stmt_eval REQUIRED_defs)

lemma validateType_array: "validateType (JArray xs) = REQUIRED_TYPE_KEYS"
  by (simp add: validateType_def stmt_eval REQUIRED_defs)

lemma validate_non_object:
  assumes "\<not> anyObject v"
  shows "validatePokemon v = REQUIRED_POKEMON_KEYS" "validateMove v a = REQUIRED_MOVE_KEYS"
    "validateItem v = REQUIRED_ITEM_KEYS" "validateType v = REQUIRED_TYPE_KEYS"
proof -
  consider "typeof v \<noteq> ''object'' \<or> v = JNull" | xs where "v = JArray xs"
    using not_object_cases[OF assms] by blast
  then have "validatePokemon v = REQUIRED_POKEMON_KEYS \<and> validateMove v a = REQUIRED_MOVE_KEYS
     \<and> validateItem v = REQUIRED_ITEM_KEYS \<and> validateType v = REQUIRED_TYPE_KEYS"
  proof cases
    case 1
    then show ?thesis
      by (simp add: validatePokemon_def validateMove_def validateItem_def validateType_def)
  next
    case 2
    then show ?thesis
      by (simp add: validatePokemon_array validateMove_array validateItem_array
            validateType_array)
  qed
  then show "validatePokemon v = REQUIRED_POKEMON_KEYS" "validateMove v a = REQUIRED_MOVE_KEYS"
    "validateItem v = REQUIRED_ITEM_KEYS" "validateType v = REQUIRED_TYPE_KEYS"
    by simp_all
qed

text \<open>
  C2. For an input that is not an object (\<^verbatim>\<open>null\<close>, a string, a number, an array, and also
  a boolean or \<^verbatim>\<open>undefined\<close>), each validator returns the full list of its top-level
  required keys in declared order. A primitive and \<^verbatim>\<open>null\<close> are caught by the guard; an
  array passes the guard, has none of the keys, and is reported key by key by the
  presence loop, after which every shape check finds its key in the list.
\<close>

theorem non_objects_fail_every_required_key:
  assumes "\<not> anyObject v"
  shows "validatePokemon v = [''id'', ''name'', ''type'', ''base'', ''species'', ''description'',
                              ''evolution'', ''profile'']
    \<and> validateMove v allowedTypes = REQUIRED_MOVE_KEYS
    \<and> validateItem v = REQUIRED_ITEM_KEYS
    \<and> validateType v = REQUIRED_TYPE_KEYS"
  using validate_non_object[OF assms] by (simp add: REQUIRED_POKEMON_KEYS_def)

text \<open>Instances at \<^verbatim>\<open>null\<close>, a string, a number and an array.\<close>

theorem non_objects_fail_every_required_key_witness:
  "\<not> anyObject JNull \<and> \<not> anyObject (JString (str ''Pikachu''))
   \<and> \<not> anyObject (JNumber (Finite 25)) \<and> \<not> anyObject (JArray [JNumber (Finite 25)])
   \<and> validatePokemon JNull = [''id'', ''name'', ''type'', ''base'', ''species'', ''description'',
                               ''evolution'', ''profile'']
   \<and> validateMove (JString (str ''Pikachu'')) {} = REQUIRED_MOVE_KEYS
   \<and> validateItem (JNumber (Finite 25)) = REQUIRED_ITEM_KEYS
   \<and> validateType (JArray [JNumber (Finite 25)]) = REQUIRED_TYPE_KEYS
   \<and> validatePokemon (JArray [JNumber (Finite 25)])
       = [''id'', ''name'', ''type'', ''base'', ''species'', ''description'', ''evolution'',
          ''profile'']"
proof -
  have h: "\<not> anyObject JNull" "\<not> anyObject (JString (str ''Pikachu''))"
    "\<not> anyObject (JNumber (Finite 25))" "\<not> anyObject (JArray [JNumber (Finite 25)])"
    by (simp_all add: anyObject_def)
  show ?thesis
    using h non_objects_fail_every_required_key[OF h(1), of "{}"]
      non_objects_fail_every_required_key[OF h(2), of "{}"]
      non_objects_fail_every_required_key[OF h(3), of "{}"]
      non_objects_fail_every_required_key[OF h(4), of "{}"]
    by simp
qed

section \<open>Scenario 1: the order of the failure list\<close>

text \<open>
  C3, as stated, asks for the list \<^verbatim>\<open>["profile.gender", "base.Speed"]\<close>. The example
  record is of the scenario's shape and the validator returns a different list.
\<close>

theorem scenario1_order_counterexample:
  "scenario1Pokemon scenario1Example
   \<and> validatePokemon scenario1Example \<noteq> [''profile.gender'', ''base.Speed'']"
  using scenario1_result[OF scenario1Pokemon_example] scenario1Pokemon_example by simp

text \<open>
  C3, amended. For a Pokemon record that conforms in every respect except that
  \<^verbatim>\<open>profile.gender\<close> is absent and \<^verbatim>\<open>base.Speed\<close> is a string, \<^verbatim>\<open>validatePokemon\<close>
  returns exactly \<^verbatim>\<open>["base.Speed", "profile.gender"]\<close>: the base stats are checked before
  the profile, and a nested field is pushed when its container is checked.
\<close>

theorem scenario1_reports_base_before_profile:
  "scenario1Pokemon p \<Longrightarrow> validatePokemon p = [''base.Speed'', ''profile.gender'']"
  by (rule scenario1_result)

text \<open>The example record satisfies the hypothesis.\<close>

theorem scenario1_reports_base_before_profile_witness:
  "scenario1Pokemon scenario1Example
   \<and> validatePokemon scenario1Example = [''base.Speed'', ''profile.gender'']"
  using scenario1_reports_base_before_profile[OF scenario1Pokemon_example]
    scenario1Pokemon_example by simp

section \<open>Which fields are reported\<close>

lemma member_defined: "member v key \<noteq> JUndefined \<Longrightarrow> key_in key v"
  by (cases v) (auto split: option.splits)

text \<open>When the move validator reports the power and the category.\<close>

lemma power_reported_iff:
  "''power'' \<in> set (validateMove m a)
     \<longleftrightarrow> \<not> (key_in ''power'' m \<and> isNonEmptyString (member m ''power''))"
  unfolding validateMove_def
  by (auto simp add: stmt_sets REQUIRED_MOVE_KEYS_facts REQUIRED_NAME_KEYS_moves_facts
        dest: key_in_D)

lemma category_reported_iff:
  "''category'' \<in> set (validateMove m a)
     \<longleftrightarrow> \<not> (key_in ''category'' m \<and> isNonEmptyString (member m ''category''))"
  unfolding validateMove_def
  by (auto simp add: stmt_sets REQUIRED_MOVE_KEYS_facts REQUIRED_NAME_KEYS_moves_facts
        dest: key_in_D)

lemma ability_not_reported:
  assumes "key_in ''ability'' (member p ''profile'')"
    and "isArray (member (member p ''profile'') ''ability'')"
  shows "''profile.ability'' \<notin> set (validatePokemon p)"
  unfolding validatePokemon_def using assms
  by (simp add: stmt_sets REQUIRED_POKEMON_KEYS_facts REQUIRED_NAME_KEYS_pokedex_facts
        REQUIRED_BASE_KEYS_facts REQUIRED_PROFILE_KEYS_facts)

text \<open>
  C9. \<^verbatim>\<open>profile.ability\<close> is checked with \<^verbatim>\<open>Array.isArray\<close> only: for every Pokemon
  record whose \<^verbatim>\<open>profile.ability\<close> is an array, whatever its elements, the failure list
  does not contain \<^verbatim>\<open>profile.ability\<close>.
\<close>

theorem any_ability_array_is_accepted:
  assumes "member (member p ''profile'') ''ability'' = JArray xs"
  shows "''profile.ability'' \<notin> set (validatePokemon p)"
proof (rule ability_not_reported)
  show "key_in ''ability'' (member p ''profile'')"
    using assms by (intro member_defined) simp
  show "isArray (member (member p ''profile'') ''ability'')"
    using assms by simp
qed

text \<open>An ability list of a number, \<^verbatim>\<open>null\<close> and a one-element list is accepted.\<close>

lemma oddAbilityExample_ability:
  "member (member oddAbilityExample ''profile'') ''ability''
     = JArray [JNumber (Finite 7), JNull, JArray [JString (str ''Overgrow'')]]"
  by (simp add: oddAbilityExample_def examplePokemon_def str_inject)

theorem any_ability_array_is_accepted_witness:
  "member (member oddAbilityExample ''profile'') ''ability''
     = JArray [JNumber (Finite 7), JNull, JArray [JString (str ''Overgrow'')]]
   \<and> ''profile.ability'' \<notin> set (validatePokemon oddAbilityExample)"
  using any_ability_array_is_accepted[OF oddAbilityExample_ability] oddAbilityExample_ability
  by simp

section \<open>Scenario 2: power and category of a move\<close>

lemmas example_run = stmt_eval REQUIRED_defs str_inject isNonEmptyString_JString isWhiteSpace_def

lemma blank_power_result:
  "validateMove (exampleMove (JString (str ''Physical'')) (JString blank)) a = [''power'']"
  by (simp add: validateMove_def exampleMove_def blank_def emDash_def example_run str_def)

lemma blank_category_result:
  "validateMove (exampleMove (JString blank) (JString (str ''40''))) a = [''category'']"
  by (simp add: validateMove_def exampleMove_def blank_def emDash_def example_run str_def)

text \<open>
  C7, as stated, lets any non-empty string pass the power check. A move whose power is
  the one-blank string, valid in all other fields, is reported for its power.
\<close>

theorem blank_power_counterexample:
  "blank \<noteq> []
   \<and> validateMove (exampleMove (JString (str ''Physical'')) (JString blank)) {} = [''power'']"
proof -
  have "blank \<noteq> []"
    by (simp add: blank_def)
  then show ?thesis
    by (simp add: blank_power_result)
qed

text \<open>
  C7, amended. A power value that is a string with at least one code unit that is not
  white space (such as the em dash) produces no \<^verbatim>\<open>power\<close> failure; a power value that is a
  number produces one. Both hold whatever the other fields of the move are.
\<close>

theorem power_is_checked_as_trimmed_string:
  "(member m ''power'' = JString s \<and> (\<exists>c\<in>set s. \<not> isWhiteSpace c)
      \<longrightarrow> ''power'' \<notin> set (validateMove m allowedTypes))
   \<and> (member m ''power'' = JNumber n \<longrightarrow> ''power'' \<in> set (validateMove m allowedTypes))"
proof (intro conjI impI)
  assume a: "member m ''power'' = JString s \<and> (\<exists>c\<in>set s. \<not> isWhiteSpace c)"
  then have "key_in ''power'' m"
    by (intro member_defined) simp
  with a show "''power'' \<notin> set (validateMove m allowedTypes)"
    by (simp add: power_reported_iff isNonEmptyString_JString)
next
  assume "member m ''power'' = JNumber n"
  then show "''power'' \<in> set (validateMove m allowedTypes)"
    by (simp add: power_reported_iff isNonEmptyString_def)
qed

text \<open>Instances at the em dash and at the number 90.\<close>

lemma exampleMove_fields:
  "member (exampleMove category pwr) ''power'' = pwr"
  "member (exampleMove category pwr) ''category'' = category"
  by (simp_all add: exampleMove_def str_inject)

theorem power_is_checked_as_trimmed_string_witness:
  "member (exampleMove (JString (str ''Physical'')) (JString emDash)) ''power'' = JString emDash
   \<and> (\<exists>c\<in>set emDash. \<not> isWhiteSpace c)
   \<and> ''power'' \<notin> set (validateMove (exampleMove (JString (str ''Physical'')) (JString emDash)) {})
   \<and> member (exampleMove (JString (str ''Physical'')) (JNumber (Finite 90))) ''power''
       = JNumber (Finite 90)
   \<and> ''power'' \<in> set (validateMove (exampleMove (JString (str ''Physical'')) (JNumber (Finite 90))) {})"
proof -
  have d: "\<exists>c\<in>set emDash. \<not> isWhiteSpace c"
    by (simp add: emDash_def isWhiteSpace_def)
  show ?thesis
    using d exampleMove_fields
      power_is_checked_as_trimmed_string[of
        "exampleMove (JString (str ''Physical'')) (JString emDash)" emDash "{}"]
      power_is_checked_as_trimmed_string[of
        "exampleMove (JString (str ''Physical'')) (JNumber (Finite 90))" _ "{}" "Finite 90"]
    by simp
qed

text \<open>
  C10, as stated, lets any non-empty string outside the declared category names pass. The
  one-blank string is such a string, and a move with it as category, valid in all other
  fields, is reported for its category.
\<close>

theorem blank_category_counterexample:
  "blank \<noteq> [] \<and> blank \<notin> set categoryNames
   \<and> validateMove (exampleMove (JString blank) (JString (str ''40''))) {} = [''category'']"
proof -
  have "blank \<noteq> []" "blank \<notin> set categoryNames"
    by (simp_all add: blank_def categoryNames_def str_def)
  then show ?thesis
    by (simp add: blank_category_result)
qed

text \<open>
  C10, amended. For every move record whose category is a string with at least one code
  unit that is not white space, the failure list does not contain \<^verbatim>\<open>category\<close>, whether
  the string is one of the declared category names or not: membership in the enumeration
  is never checked.
\<close>

theorem category_is_checked_as_trimmed_string_only:
  assumes "member m ''category'' = JString s" and "\<exists>c\<in>set s. \<not> isWhiteSpace c"
  shows "''category'' \<notin> set (validateMove m allowedTypes)"
proof -
  have "key_in ''category'' m"
    using assms(1) by (intro member_defined) simp
  with assms show ?thesis
    by (simp add: category_reported_iff isNonEmptyString_JString)
qed

text \<open>\<^verbatim>\<open>"Banana"\<close> is not a category name and is accepted.\<close>

theorem category_is_checked_as_trimmed_string_only_witness:
  "str ''Banana'' \<notin> set categoryNames
   \<and> member (exampleMove (JString (str ''Banana'')) (JString (str ''40''))) ''category''
       = JString (str ''Banana'')
   \<and> (\<exists>c\<in>set (str ''Banana''). \<not> isWhiteSpace c)
   \<and> ''category'' \<notin> set (validateMove (exampleMove (JString (str ''Banana'')) (JString (str ''40''))) {})"
proof -
  have m: "member (exampleMove (JString (str ''Banana'')) (JString (str ''40''))) ''category''
       = JString (str ''Banana'')"
    by (rule exampleMove_fields)
  have t: "\<exists>c\<in>set (str ''Banana''). \<not> isWhiteSpace c"
    by (simp add: str_def isWhiteSpace_def)
  have e: "str ''Banana'' \<notin> set categoryNames"
    by (simp add: categoryNames_def str_inject)
  show ?thesis
    using m t e category_is_checked_as_trimmed_string_only[OF m t, of "{}"] by simp
qed

section \<open>The aggregation loops\<close>

text \<open>
  The loop of each \<^verbatim>\<open>main\<close> records, in input order, the failure lists of exactly the
  records whose list is not empty: what one iteration records depends on its own record
  only.
\<close>

lemma failures_pokedex_keys:
  "map missingKeys (failures_pokedex ds) = filter (\<lambda>ks. ks \<noteq> []) (map validatePokemon ds)"
  by (induction ds rule: rev_induct) (simp_all add: failures_pokedex_def Let_def)

lemma failures_items_keys:
  "map missingKeys (failures_items ds) = filter (\<lambda>ks. ks \<noteq> []) (map validateItem ds)"
  by (induction ds rule: rev_induct) (simp_all add: failures_items_def Let_def)

lemma failures_moves_keys:
  "map missingKeys (failures_moves ds a)
     = filter (\<lambda>ks. ks \<noteq> []) (map (\<lambda>m. validateMove m a) ds)"
  by (induction ds rule: rev_induct) (simp_all add: failures_moves_def Let_def)

lemma failures_types_keys:
  "map type_missingKeys (failures_types ds)
     = filter (\<lambda>ks. ks \<noteq> []) (map validateType ds)"
  by (induction ds rule: rev_induct) (simp_all add: failures_types_def Let_def)

lemma no_failures_iff:
  assumes "map sel fs = filter (\<lambda>ks. ks \<noteq> []) (map validate ds)"
  shows "fs = [] \<longleftrightarrow> (\<forall>r\<in>set ds. validate r = [])"
proof -
  have "fs = [] \<longleftrightarrow> map sel fs = []"
    by simp
  also have "\<dots> \<longleftrightarrow> (\<forall>r\<in>set ds. validate r = [])"
    unfolding assms by (simp add: filter_empty_conv)
  finally show ?thesis .
qed

lemmas failures_pokedex_Nil = no_failures_iff[OF failures_pokedex_keys]
lemmas failures_items_Nil = no_failures_iff[OF failures_items_keys]
lemmas failures_moves_Nil = no_failures_iff[OF failures_moves_keys]
lemmas failures_types_Nil = no_failures_iff[OF failures_types_keys]

section \<open>Report and exit code\<close>

lemma exitStatus_pokedex:
  "exitStatus (main_pokedex ts ds) = (if failures_pokedex ds = [] then 0 else 1)"
  by (simp add: main_pokedex_def Let_def exitStatus_def)

lemma exitStatus_items:
  "exitStatus (main_items ts ds) = (if failures_items ds = [] then 0 else 1)"
  by (simp add: main_items_def Let_def exitStatus_def)

lemma exitStatus_types:
  "exitStatus (main_types ts ds) = (if failures_types ds = [] then 0 else 1)"
  by (simp add: main_types_def Let_def exitStatus_def)

lemma failures_moves_Nil_any:
  "failures_moves ds a = [] \<longleftrightarrow> (\<forall>m\<in>set ds. validateMove m b = [])"
  using failures_moves_Nil[of ds a] by (simp add: validateMove_def)

lemma allowedTypesOf_ok:
  assumes "\<forall>t\<in>set types. t \<noteq> JNull \<and> t \<noteq> JUndefined"
  shows "allowedTypesOf types = Inr (set (map (\<lambda>t. member t ''english'') types))"
  using assms by (auto simp add: allowedTypesOf_def list_ex_iff)

lemma main_moves_throws:
  assumes "\<exists>t\<in>set types. t = JNull \<or> t = JUndefined"
  shows "main_moves ts ds types = Inl TypeError"
  using assms by (auto simp add: main_moves_def allowedTypesOf_def list_ex_iff)

lemma main_moves_runs:
  assumes "\<forall>t\<in>set types. t \<noteq> JNull \<and> t \<noteq> JUndefined"
  shows "(\<exists>trace rest. main_moves ts ds types = Inr trace
           \<and> trace = WriteFile outputPath_moves (JObject [
                  (str ''timestamp'', JString ts),
                  (str ''totalMoves'', JNumber (Finite (of_nat (length ds)))),
                  (str ''movesWithMissingKeys'', JNumber (Finite (of_nat (length (failures_moves ds (set (map (\<lambda>t. member t ''english'') types))))))),
                  (str ''failures'', JArray (map failureObject (failures_moves ds (set (map (\<lambda>t. member t ''english'') types)))))]) # rest
           \<and> (exitStatus trace = 0 \<longleftrightarrow> (\<forall>r\<in>set ds. validateMove r b = []))
           \<and> (exitStatus trace = 1 \<longleftrightarrow> (\<exists>r\<in>set ds. validateMove r b \<noteq> [])))"
  by (simp add: main_moves_def allowedTypesOf_ok[OF assms] Let_def exitStatus_def
        failures_moves_Nil_any[where b = b])

text \<open>
  C6, as stated, covers every validator program on every input. The move program reads
  \<^verbatim>\<open>t.english\<close> of every entry of the type list before it validates anything. With a
  dataset of one conforming move and a type list whose only entry is \<^verbatim>\<open>null\<close>, the run
  ends in a \<^verbatim>\<open>TypeError\<close>: no report is written and the run fails although no record
  does.
\<close>

theorem null_type_entry_counterexample:
  "validateMove pound {} = []
   \<and> main_moves (str ''2026-01-01T00:00:00.000Z'') [pound] [JNull] = Inl TypeError"
  using conformsMove_valid[OF conformsMove_pound, of "{}"]
    main_moves_throws[of "[JNull]" "str ''2026-01-01T00:00:00.000Z''" "[pound]"]
  by simp

text \<open>
  C6, amended. For every dataset, the Pokemon, item and type programs write their report
  file as the first effect of the run, before the branch on the number of failures that
  prints the summary and sets the exit code, and so also when nothing failed; the report
  holds the time stamp, the size of the dataset, the number of failing records and their
  entries, which carry the non-empty failure lists in input order. The exit status is 0
  exactly when every record has an empty failure list, and 1 exactly when some record has
  a non-empty one. The move program does the same on every type list that has no
  \<^verbatim>\<open>null\<close> or \<^verbatim>\<open>undefined\<close> entry; on a type list with such an entry it throws a
  \<^verbatim>\<open>TypeError\<close> before it validates or writes anything. The allow-list does not matter
  to the outcome, so the exit status is stated with any set in its place.
\<close>

theorem report_is_written_first_and_exit_code_tells_failure:
  "(\<exists>rest. main_pokedex ts ds = WriteFile outputPath_pokedex (JObject [
          (str ''timestamp'', JString ts),
          (str ''totalPokemon'', JNumber (Finite (of_nat (length ds)))),
          (str ''pokemonWithMissingKeys'', JNumber (Finite (of_nat (length (failures_pokedex ds))))),
          (str ''failures'', JArray (map failureObject (failures_pokedex ds)))]) # rest)
   \<and> map missingKeys (failures_pokedex ds) = filter (\<lambda>ks. ks \<noteq> []) (map validatePokemon ds)
   \<and> (exitStatus (main_pokedex ts ds) = 0 \<longleftrightarrow> (\<forall>r\<in>set ds. validatePokemon r = []))
   \<and> (exitStatus (main_pokedex ts ds) = 1 \<longleftrightarrow> (\<exists>r\<in>set ds. validatePokemon r \<noteq> []))
   \<and> (\<exists>rest. main_items ts ds = WriteFile outputPath_items (JObject [
          (str ''timestamp'', JString ts),
          (str ''totalItems'', JNumber (Finite (of_nat (length ds)))),
          (str ''itemsWithMissingKeys'', JNumber (Finite (of_nat (length (failures_items ds))))),
          (str ''failures'', JArray (map failureObject (failures_items ds)))]) # rest)
   \<and> map missingKeys (failures_items ds) = filter (\<lambda>ks. ks \<noteq> []) (map validateItem ds)
   \<and> (exitStatus (main_items ts ds) = 0 \<longleftrightarrow> (\<forall>r\<in>set ds. validateItem r = []))
   \<and> (exitStatus (main_items ts ds) = 1 \<longleftrightarrow> (\<exists>r\<in>set ds. validateItem r \<noteq> []))
   \<and> (\<exists>rest. main_types ts ds = WriteFile outputPath_types (JObject [
          (str ''timestamp'', JString ts),
          (str ''totalTypes'', JNumber (Finite (of_nat (length ds)))),
          (str ''typesWithMissingKeys'', JNumber (Finite (of_nat (length (failures_types ds))))),
          (str ''failures'', JArray (map typeFailureObject (failures_types ds)))]) # rest)
   \<and> map type_missingKeys (failures_types ds) = filter (\<lambda>ks. ks \<noteq> []) (map validateType ds)
   \<and> (exitStatus (main_types ts ds) = 0 \<longleftrightarrow> (\<forall>r\<in>set ds. validateType r = []))
   \<and> (exitStatus (main_types ts ds) = 1 \<longleftrightarrow> (\<exists>r\<in>set ds. validateType r \<noteq> []))
   \<and> ((\<forall>t\<in>set types. t \<noteq> JNull \<and> t \<noteq> JUndefined) \<longrightarrow>
        (\<exists>trace rest. main_moves ts ds types = Inr trace
           \<and> trace = WriteFile outputPath_moves (JObject [
                  (str ''timestamp'', JString ts),
                  (str ''totalMoves'', JNumber (Finite (of_nat (length ds)))),
                  (str ''movesWithMissingKeys'', JNumber (Finite (of_nat (length (failures_moves ds (set (map (\<lambda>t. member t ''english'') types))))))),
                  (str ''failures'', JArray (map failureObject (failures_moves ds (set (map (\<lambda>t. member t ''english'') types)))))]) # rest
           \<and> (exitStatus trace = 0 \<longleftrightarrow> (\<forall>r\<in>set ds. validateMove r allowedTypes = []))
           \<and> (exitStatus trace = 1 \<longleftrightarrow> (\<exists>r\<in>set ds. validateMove r allowedTypes \<noteq> []))))
   \<and> map missingKeys (failures_moves ds allowedTypes)
       = filter (\<lambda>ks. ks \<noteq> []) (map (\<lambda>m. validateMove m allowedTypes) ds)
   \<and> ((\<exists>t\<in>set types. t = JNull \<or> t = JUndefined) \<longrightarrow>
        main_moves ts ds types = Inl TypeError)"
proof -
  have w: "\<exists>rest. main_pokedex ts ds = WriteFile outputPath_pokedex (JObject [
          (str ''timestamp'', JString ts),
          (str ''totalPokemon'', JNumber (Finite (of_nat (length ds)))),
          (str ''pokemonWithMissingKeys'', JNumber (Finite (of_nat (length (failures_pokedex ds))))),
          (str ''failures'', JArray (map failureObject (failures_pokedex ds)))]) # rest"
    "\<exists>rest. main_items ts ds = WriteFile outputPath_items (JObject [
          (str ''timestamp'', JString ts),
          (str ''totalItems'', JNumber (Finite (of_nat (length ds)))),
          (str ''itemsWithMissingKeys'', JNumber (Finite (of_nat (length (failures_items ds))))),
          (str ''failures'', JArray (map failureObject (failures_items ds)))]) # rest"
    "\<exists>rest. main_types ts ds = WriteFile outputPath_types (JObject [
          (str ''timestamp'', JString ts),
          (str ''totalTypes'', JNumber (Finite (of_nat (length ds)))),
          (str ''typesWithMissingKeys'', JNumber (Finite (of_nat (length (failures_types ds))))),
          (str ''failures'', JArray (map typeFailureObject (failures_types ds)))]) # rest"
    by (simp_all add: main_pokedex_def main_items_def main_types_def Let_def)
  show ?thesis
    using w main_moves_runs[of types ts ds allowedTypes] main_moves_throws[of types ts ds]
    by (simp add: exitStatus_pokedex exitStatus_items exitStatus_types failures_pokedex_Nil
          failures_items_Nil failures_types_Nil failures_pokedex_keys failures_items_keys
          failures_types_keys failures_moves_keys)
qed

text \<open>Runs on datasets built from the example records and \<^verbatim>\<open>null\<close>.\<close>

lemma example_results:
  "validatePokemon bulbasaur = []" "validateMove pound a = []" "validateItem potion = []"
  "validateType fireType = []"
  by (rule conformsPokemon_valid[OF conformsPokemon_bulbasaur]
        conformsMove_valid[OF conformsMove_pound] conformsItem_valid[OF conformsItem_potion]
        conformsType_valid[OF conformsType_fireType])+

lemma null_results:
  "validatePokemon JNull \<noteq> []" "validateMove JNull a \<noteq> []" "validateItem JNull \<noteq> []"
  "validateType JNull \<noteq> []"
  by (simp_all add: validatePokemon_def validateMove_def validateItem_def validateType_def
        REQUIRED_defs)

theorem report_is_written_first_and_exit_code_tells_failure_witness:
  "exitStatus (main_pokedex (str ''2026-01-01T00:00:00.000Z'') [bulbasaur]) = 0
   \<and> exitStatus (main_pokedex (str ''2026-01-01T00:00:00.000Z'') [bulbasaur, JNull]) = 1
   \<and> exitStatus (main_items (str ''2026-01-01T00:00:00.000Z'') []) = 0
   \<and> exitStatus (main_items (str ''2026-01-01T00:00:00.000Z'') [potion, JNull]) = 1
   \<and> exitStatus (main_types (str ''2026-01-01T00:00:00.000Z'') [fireType]) = 0
   \<and> exitStatus (main_types (str ''2026-01-01T00:00:00.000Z'') [JNull]) = 1
   \<and> fireType \<noteq> JNull \<and> fireType \<noteq> JUndefined
   \<and> (\<exists>trace. main_moves (str ''2026-01-01T00:00:00.000Z'') [pound] [fireType] = Inr trace
         \<and> exitStatus trace = 0)
   \<and> (\<exists>trace. main_moves (str ''2026-01-01T00:00:00.000Z'') [pound, JNull] [fireType] = Inr trace
         \<and> exitStatus trace = 1)
   \<and> main_moves (str ''2026-01-01T00:00:00.000Z'') [pound] [fireType, JNull] = Inl TypeError"
proof -
  let ?ts = "str ''2026-01-01T00:00:00.000Z''"
  note r = report_is_written_first_and_exit_code_tells_failure
  have f: "fireType \<noteq> JNull" "fireType \<noteq> JUndefined"
    by (simp_all add: fireType_def)
  have p0: "exitStatus (main_pokedex ?ts [bulbasaur]) = 0"
    using r[of ?ts "[bulbasaur]" "[]" "{}"] example_results by simp
  have p1: "exitStatus (main_pokedex ?ts [bulbasaur, JNull]) = 1"
    using r[of ?ts "[bulbasaur, JNull]" "[]" "{}"] null_results by simp
  have i0: "exitStatus (main_items ?ts []) = 0"
    using r[of ?ts "[]" "[]" "{}"] by simp
  have i1: "exitStatus (main_items ?ts [potion, JNull]) = 1"
    using r[of ?ts "[potion, JNull]" "[]" "{}"] null_results by simp
  have t0: "exitStatus (main_types ?ts [fireType]) = 0"
    using r[of ?ts "[fireType]" "[]" "{}"] example_results by simp
  have t1: "exitStatus (main_types ?ts [JNull]) = 1"
    using r[of ?ts "[JNull]" "[]" "{}"] null_results by simp
  have m0: "\<exists>trace. main_moves ?ts [pound] [fireType] = Inr trace \<and> exitStatus trace = 0"
    using r[of ?ts "[pound]" "[fireType]" "{}"] f example_results by auto
  have m1: "\<exists>trace. main_moves ?ts [pound, JNull] [fireType] = Inr trace \<and> exitStatus trace = 1"
    using r[of ?ts "[pound, JNull]" "[fireType]" "{}"] f null_results by auto
  have m2: "main_moves ?ts [pound] [fireType, JNull] = Inl TypeError"
    using r[of ?ts "[pound]" "[fireType, JNull]" "{}"] by simp
  show ?thesis
    using f p0 p1 i0 i1 t0 t1 m0 m1 m2 by (intro conjI)
qed

section \<open>Validating a record twice\<close>

subsection \<open>Heap statements and array statements\<close>

lemma simulatesD: "simulates h sH s \<Longrightarrow> sH (h @ [ks]) = h @ [s ks]"
  by (simp add: simulates_def)

lemma deref_last: "deref (h @ [ks]) (length h) = ks"
  by (simp add: deref_def)

lemma deref_old: "r < length h \<Longrightarrow> deref (h @ [ks]) r = h ! r"
  by (simp add: deref_def nth_append)

lemma sim_push: "simulates h (push_at (length h) k) (push k)"
  by (simp add: simulates_def push_at_def push_def deref_last)

lemma sim_ifThen: "simulates h sH s \<Longrightarrow> simulates h (ifThen (\<lambda>_. c) sH) (ifThen (\<lambda>_. c) s)"
  by (simp add: simulates_def ifThen_def)

lemma sim_ifThen_includes:
  "simulates h sH s \<Longrightarrow>
   simulates h (ifThen (\<lambda>h'. \<not> includes_at h' (length h) k) sH)
               (ifThen (\<lambda>mk. \<not> array_includes mk k) s)"
  by (simp add: simulates_def ifThen_def includes_at_def array_includes_def deref_last)

lemma sim_ifThenElse:
  "simulates h sH s \<Longrightarrow> simulates h tH t \<Longrightarrow>
   simulates h (ifThenElse (\<lambda>_. c) sH tH) (ifThenElse (\<lambda>_. c) s t)"
  by (simp add: simulates_def ifThenElse_def)

lemma sim_forOf:
  assumes "\<And>key. simulates h (bodyH key) (body key)"
  shows "simulates h (forOf keys bodyH) (forOf keys body)"
  unfolding simulates_def
proof
  fix ks
  show "forOf keys bodyH (h @ [ks]) = h @ [forOf keys body ks]"
    using assms by (induction keys arbitrary: ks) (simp_all add: forOf_def simulates_def)
qed

lemma sim_forOfAt:
  assumes "r < length h" and "h ! r = keys" and "\<And>key. simulates h (bodyH key) (body key)"
  shows "simulates h (forOfAt r bodyH) (forOf keys body)"
  using sim_forOf[OF assms(3), of keys] assms(1,2)
  by (simp add: simulates_def forOfAt_def deref_old)

lemma sim_block_Nil: "simulates h (block []) (block [])"
  by (simp add: simulates_def block_def)

lemma sim_block_Cons:
  "simulates h sH s \<Longrightarrow> simulates h (block ssH) (block ss) \<Longrightarrow>
   simulates h (block (sH # ssH)) (block (s # ss))"
  by (simp add: simulates_def block_def)

lemma sim_blockD:
  "simulates h (block ssH) (block ss) \<Longrightarrow> block ssH (h @ [ks]) = h @ [block ss ks]"
  by (rule simulatesD)

lemmas sim_intros = sim_block_Cons sim_block_Nil sim_forOfAt sim_ifThenElse sim_ifThen_includes
  sim_ifThen sim_push

subsection \<open>A call on the heap returns what the function returns\<close>

text \<open>
  On a heap that holds the script's key tables followed by any other arrays, a call
  allocates its failure list after everything that exists, fills it as the function of
  the record says, and changes nothing else. For an input that is not an object the empty
  \<^verbatim>\<open>missingKeys\<close> array is allocated too and left behind.
\<close>

lemma module_types_tables:
  "REQUIRED_TYPE_KEYS_ref < length (module_types @ rest)"
  "(module_types @ rest) ! REQUIRED_TYPE_KEYS_ref = REQUIRED_TYPE_KEYS"
  by (simp_all add: module_types_def REQUIRED_TYPE_KEYS_ref_def)

lemma validateType_heap_eq:
  "validateType_heap t (module_types @ rest)
     = (if typeof t \<noteq> ''object'' \<or> t = JNull
        then (length (module_types @ rest @ [[]]), module_types @ rest @ [[]] @ [validateType t])
        else (length (module_types @ rest), module_types @ rest @ [validateType t]))"
proof (cases "typeof t \<noteq> ''object'' \<or> t = JNull")
  case True
  then show ?thesis
    by (simp add: validateType_heap_def validateType_def alloc_def deref_def nth_append
          module_types_def REQUIRED_TYPE_KEYS_ref_def)
next
  case False
  let ?h = "module_types @ rest"
  have "validateType_heap t ?h = (length ?h, ?h @ [validateType t])"
    unfolding validateType_heap_def validateType_def alloc_def
    apply (simp only: prod.case False if_False prod.inject simp_thms)
    apply (rule sim_blockD)
    apply (intro sim_intros module_types_tables)
    done
  with False show ?thesis
    by simp
qed

lemma module_items_tables:
  "REQUIRED_ITEM_KEYS_ref < length (module_items @ rest)"
  "(module_items @ rest) ! REQUIRED_ITEM_KEYS_ref = REQUIRED_ITEM_KEYS"
  "REQUIRED_NAME_KEYS_items_ref < length (module_items @ rest)"
  "(module_items @ rest) ! REQUIRED_NAME_KEYS_items_ref = REQUIRED_NAME_KEYS_items"
  by (simp_all add: module_items_def REQUIRED_ITEM_KEYS_ref_def REQUIRED_NAME_KEYS_items_ref_def)

lemma validateItem_heap_eq:
  "validateItem_heap i (module_items @ rest)
     = (if typeof i \<noteq> ''object'' \<or> i = JNull
        then (length (module_items @ rest @ [[]]), module_items @ rest @ [[]] @ [validateItem i])
        else (length (module_items @ rest), module_items @ rest @ [validateItem i]))"
proof (cases "typeof i \<noteq> ''object'' \<or> i = JNull")
  case True
  then show ?thesis
    by (simp add: validateItem_heap_def validateItem_def alloc_def deref_def nth_append
          module_items_def REQUIRED_ITEM_KEYS_ref_def REQUIRED_NAME_KEYS_items_ref_def)
next
  case False
  let ?h = "module_items @ rest"
  have "validateItem_heap i ?h = (length ?h, ?h @ [validateItem i])"
    unfolding validateItem_heap_def validateItem_def alloc_def
    apply (simp only: prod.case False if_False prod.inject simp_thms)
    apply (rule sim_blockD)
    apply (intro sim_intros module_items_tables)
    done
  with False show ?thesis
    by simp
qed

lemma module_moves_tables:
  "REQUIRED_MOVE_KEYS_ref < length (module_moves @ rest)"
  "(module_moves @ rest) ! REQUIRED_MOVE_KEYS_ref = REQUIRED_MOVE_KEYS"
  "REQUIRED_NAME_KEYS_moves_ref < length (module_moves @ rest)"
  "(module_moves @ rest) ! REQUIRED_NAME_KEYS_moves_ref = REQUIRED_NAME_KEYS_moves"
  by (simp_all add: module_moves_def REQUIRED_MOVE_KEYS_ref_def REQUIRED_NAME_KEYS_moves_ref_def)

lemma validateMove_heap_eq:
  "validateMove_heap m a (module_moves @ rest)
     = (if typeof m \<noteq> ''object'' \<or> m = JNull
        then (length (module_moves @ rest @ [[]]), module_moves @ rest @ [[]] @ [validateMove m a])
        else (length (module_moves @ rest), module_moves @ rest @ [validateMove m a]))"
proof (cases "typeof m \<noteq> ''object'' \<or> m = JNull")
  case True
  then show ?thesis
    by (simp add: validateMove_heap_def validateMove_def alloc_def deref_def nth_append
          module_moves_def REQUIRED_MOVE_KEYS_ref_def REQUIRED_NAME_KEYS_moves_ref_def)
next
  case False
  let ?h = "module_moves @ rest"
  have "validateMove_heap m a ?h = (length ?h, ?h @ [validateMove m a])"
    unfolding validateMove_heap_def validateMove_def alloc_def
    apply (simp only: prod.case False if_False prod.inject simp_thms)
    apply (rule sim_blockD)
    apply (intro sim_intros module_moves_tables)
    done
  with False show ?thesis
    by simp
qed

lemma module_pokedex_tables:
  "REQUIRED_POKEMON_KEYS_ref < length (module_pokedex @ rest)"
  "(module_pokedex @ rest) ! REQUIRED_POKEMON_KEYS_ref = REQUIRED_POKEMON_KEYS"
  "REQUIRED_NAME_KEYS_pokedex_ref < length (module_pokedex @ rest)"
  "(module_pokedex @ rest) ! REQUIRED_NAME_KEYS_pokedex_ref = REQUIRED_NAME_KEYS_pokedex"
  "REQUIRED_BASE_KEYS_ref < length (module_pokedex @ rest)"
  "(module_pokedex @ rest) ! REQUIRED_BASE_KEYS_ref = REQUIRED_BASE_KEYS"
  "REQUIRED_PROFILE_KEYS_ref < length (module_pokedex @ rest)"
  "(module_pokedex @ rest) ! REQUIRED_PROFILE_KEYS_ref = REQUIRED_PROFILE_KEYS"
  by (simp_all add: module_pokedex_def REQUIRED_POKEMON_KEYS_ref_def REQUIRED_NAME_KEYS_pokedex_ref_def REQUIRED_BASE_KEYS_ref_def REQUIRED_PROFILE_KEYS_ref_def)

lemma validatePokemon_heap_eq:
  "validatePokemon_heap p (module_pokedex @ rest)
     = (if typeof p \<noteq> ''object'' \<or> p = JNull
        then (length (module_pokedex @ rest @ [[]]), module_pokedex @ rest @ [[]] @ [validatePokemon p])
        else (length (module_pokedex @ rest), module_pokedex @ rest @ [validatePokemon p]))"
proof (cases "typeof p \<noteq> ''object'' \<or> p = JNull")
  case True
  then show ?thesis
    by (simp add: validatePokemon_heap_def validatePokemon_def alloc_def deref_def nth_append
          module_pokedex_def REQUIRED_POKEMON_KEYS_ref_def REQUIRED_NAME_KEYS_pokedex_ref_def REQUIRED_BASE_KEYS_ref_def REQUIRED_PROFILE_KEYS_ref_def)
next
  case False
  let ?h = "module_pokedex @ rest"
  have "validatePokemon_heap p ?h = (length ?h, ?h @ [validatePokemon p])"
    unfolding validatePokemon_heap_def validatePokemon_def alloc_def
    apply (simp only: prod.case False if_False prod.inject simp_thms)
    apply (rule sim_blockD)
    apply (intro sim_intros module_pokedex_tables)
    done
  with False show ?thesis
    by simp
qed

text \<open>
  Whatever the caller writes into the first failure list, the second call returns the
  same list as the first, and neither call changes an array that existed before it.
\<close>

lemma callTwice_same:
  assumes "\<And>rest. \<exists>junk. validate (m @ rest) = (length (m @ rest @ junk), m @ rest @ junk @ [res])"
  shows "callTwice validate scribble (m @ rest) = (res, res)"
proof -
  from assms obtain junk1
    where c1: "validate (m @ rest) = (length (m @ rest @ junk1), m @ rest @ junk1 @ [res])"
    by blast
  let ?rest2 = "rest @ junk1 @ [scribble]"
  have upd: "(m @ rest @ junk1 @ [res])[length (m @ rest @ junk1) := scribble] = m @ ?rest2"
    using list_update_length[of "m @ rest @ junk1" res "[]" scribble] by simp
  from assms obtain junk2
    where c2: "validate (m @ ?rest2) = (length (m @ ?rest2 @ junk2), m @ ?rest2 @ junk2 @ [res])"
    by blast
  have d1: "deref (m @ rest @ junk1 @ [res]) (length (m @ rest @ junk1)) = res"
    using deref_last[of "m @ rest @ junk1" res] by simp
  have d2: "deref (m @ ?rest2 @ junk2 @ [res]) (length (m @ ?rest2 @ junk2)) = res"
    using deref_last[of "m @ ?rest2 @ junk2" res] by simp
  show ?thesis
    unfolding callTwice_def c1 prod.case upd c2 d1 d2 ..
qed

lemma call_keeps_heap:
  assumes "\<exists>junk. validate h = (length (h @ junk), h @ junk @ [res])"
  shows "take (length h) (snd (validate h)) = h"
  using assms by auto

lemma validateType_heap_shape:
  "\<exists>junk. validateType_heap t (module_types @ rest)
     = (length (module_types @ rest @ junk), module_types @ rest @ junk @ [validateType t])"
proof (cases "typeof t \<noteq> ''object'' \<or> t = JNull")
  case True
  then have "validateType_heap t (module_types @ rest)
     = (length (module_types @ rest @ [[]]), module_types @ rest @ [[]] @ [validateType t])"
    by (simp only: validateType_heap_eq if_True)
  then show ?thesis ..
next
  case False
  then have "validateType_heap t (module_types @ rest)
     = (length (module_types @ rest @ []), module_types @ rest @ [] @ [validateType t])"
    by (simp only: validateType_heap_eq if_False append_Nil append_Nil2)
  then show ?thesis ..
qed

lemma validateItem_heap_shape:
  "\<exists>junk. validateItem_heap i (module_items @ rest)
     = (length (module_items @ rest @ junk), module_items @ rest @ junk @ [validateItem i])"
proof (cases "typeof i \<noteq> ''object'' \<or> i = JNull")
  case True
  then have "validateItem_heap i (module_items @ rest)
     = (length (module_items @ rest @ [[]]), module_items @ rest @ [[]] @ [validateItem i])"
    by (simp only: validateItem_heap_eq if_True)
  then show ?thesis ..
next
  case False
  then have "validateItem_heap i (module_items @ rest)
     = (length (module_items @ rest @ []), module_items @ rest @ [] @ [validateItem i])"
    by (simp only: validateItem_heap_eq if_False append_Nil append_Nil2)
  then show ?thesis ..
qed

lemma validateMove_heap_shape:
  "\<exists>junk. validateMove_heap m a (module_moves @ rest)
     = (length (module_moves @ rest @ junk), module_moves @ rest @ junk @ [validateMove m a])"
proof (cases "typeof m \<noteq> ''object'' \<or> m = JNull")
  case True
  then have "validateMove_heap m a (module_moves @ rest)
     = (length (module_moves @ rest @ [[]]), module_moves @ rest @ [[]] @ [validateMove m a])"
    by (simp only: validateMove_heap_eq if_True)
  then show ?thesis ..
next
  case False
  then have "validateMove_heap m a (module_moves @ rest)
     = (length (module_moves @ rest @ []), module_moves @ rest @ [] @ [validateMove m a])"
    by (simp only: validateMove_heap_eq if_False append_Nil append_Nil2)
  then show ?thesis ..
qed

lemma validatePokemon_heap_shape:
  "\<exists>junk. validatePokemon_heap p (module_pokedex @ rest)
     = (length (module_pokedex @ rest @ junk), module_pokedex @ rest @ junk @ [validatePokemon p])"
proof (cases "typeof p \<noteq> ''object'' \<or> p = JNull")
  case True
  then have "validatePokemon_heap p (module_pokedex @ rest)
     = (length (module_pokedex @ rest @ [[]]), module_pokedex @ rest @ [[]] @ [validatePokemon p])"
    by (simp only: validatePokemon_heap_eq if_True)
  then show ?thesis ..
next
  case False
  then have "validatePokemon_heap p (module_pokedex @ rest)
     = (length (module_pokedex @ rest @ []), module_pokedex @ rest @ [] @ [validatePokemon p])"
    by (simp only: validatePokemon_heap_eq if_False append_Nil append_Nil2)
  then show ?thesis ..
qed

text \<open>
  C8. The validators keep no state between calls. On the heap of a running script (its key
  tables followed by any other arrays), validating a record, letting the caller overwrite
  the returned failure list with anything, and validating the same record again returns
  two equal failure lists, both the list the function of the record gives. A call changes
  no array that existed before it: it reads the key tables and writes only to the array
  it allocated, and for a non-object it returns a copy of the table, not the table. The
  validators read nothing else, so the result is determined by the record.
\<close>

theorem validators_keep_no_state:
  "callTwice (validatePokemon_heap r) scribble (module_pokedex @ rest)
     = (validatePokemon r, validatePokemon r)
   \<and> take (length (module_pokedex @ rest)) (snd (validatePokemon_heap r (module_pokedex @ rest)))
     = module_pokedex @ rest
   \<and> callTwice (validateMove_heap r allowedTypes) scribble (module_moves @ rest)
     = (validateMove r allowedTypes, validateMove r allowedTypes)
   \<and> take (length (module_moves @ rest))
        (snd (validateMove_heap r allowedTypes (module_moves @ rest)))
     = module_moves @ rest
   \<and> callTwice (validateItem_heap r) scribble (module_items @ rest)
     = (validateItem r, validateItem r)
   \<and> take (length (module_items @ rest)) (snd (validateItem_heap r (module_items @ rest)))
     = module_items @ rest
   \<and> callTwice (validateType_heap r) scribble (module_types @ rest)
     = (validateType r, validateType r)
   \<and> take (length (module_types @ rest)) (snd (validateType_heap r (module_types @ rest)))
     = module_types @ rest"
proof (intro conjI)
  show "callTwice (validatePokemon_heap r) scribble (module_pokedex @ rest)
     = (validatePokemon r, validatePokemon r)"
    by (rule callTwice_same) (rule validatePokemon_heap_shape)
  show "callTwice (validateMove_heap r allowedTypes) scribble (module_moves @ rest)
     = (validateMove r allowedTypes, validateMove r allowedTypes)"
    by (rule callTwice_same) (rule validateMove_heap_shape)
  show "callTwice (validateItem_heap r) scribble (module_items @ rest)
     = (validateItem r, validateItem r)"
    by (rule callTwice_same) (rule validateItem_heap_shape)
  show "callTwice (validateType_heap r) scribble (module_types @ rest)
     = (validateType r, validateType r)"
    by (rule callTwice_same) (rule validateType_heap_shape)
  show "take (length (module_pokedex @ rest))
          (snd (validatePokemon_heap r (module_pokedex @ rest))) = module_pokedex @ rest"
    using validatePokemon_heap_shape[of r rest] by (intro call_keeps_heap) simp
  show "take (length (module_moves @ rest))
          (snd (validateMove_heap r allowedTypes (module_moves @ rest))) = module_moves @ rest"
    using validateMove_heap_shape[of r allowedTypes rest] by (intro call_keeps_heap) simp
  show "take (length (module_items @ rest))
          (snd (validateItem_heap r (module_items @ rest))) = module_items @ rest"
    using validateItem_heap_shape[of r rest] by (intro call_keeps_heap) simp
  show "take (length (module_types @ rest))
          (snd (validateType_heap r (module_types @ rest))) = module_types @ rest"
    using validateType_heap_shape[of r rest] by (intro call_keeps_heap) simp
qed

text \<open>
  Instances: \<^verbatim>\<open>null\<close> on the heap of the freshly loaded Pokemon script, the scenario-1
  record on a heap that already holds another array, and a conforming type record.
\<close>

theorem validators_keep_no_state_witness:
  "callTwice (validatePokemon_heap JNull) [''scribbled''] module_pokedex
     = (REQUIRED_POKEMON_KEYS, REQUIRED_POKEMON_KEYS)
   \<and> callTwice (validatePokemon_heap scenario1Example) [] (module_pokedex @ [[''other'']])
     = ([''base.Speed'', ''profile.gender''], [''base.Speed'', ''profile.gender''])
   \<and> callTwice (validateType_heap fireType) [''scribbled''] module_types = ([], [])"
proof -
  have n: "\<not> anyObject JNull"
    by (simp add: anyObject_def)
  show ?thesis
    using validators_keep_no_state[of JNull "[''scribbled'']" "[]" "{}"]
      validators_keep_no_state[of scenario1Example "[]" "[[''other'']]" "{}"]
      validators_keep_no_state[of fireType "[''scribbled'']" "[]" "{}"]
      validate_non_object(1)[OF n] scenario1_result[OF scenario1Pokemon_example]
      example_results(4)
    by simp
qed

section \<open>Further instances\<close>

text \<open>The scenario-1 record, given to each of the four validators.\<close>

theorem failure_list_has_no_duplicates_witness:
  "distinct (validatePokemon scenario1Example) \<and> distinct (validateMove scenario1Example {})
   \<and> distinct (validateItem scenario1Example) \<and> distinct (validateType scenario1Example)"
  by (rule failure_list_has_no_duplicates)

text \<open>The same move under the empty allow-list and under one that holds a type name.\<close>

theorem validateMove_ignores_allowedTypes_witness:
  "validateMove pound {} = validateMove pound {JString (str ''Normal'')}"
  by (rule validateMove_ignores_allowedTypes)

end
